theory Spec2Isabelle
  imports Complex_Main "HOL-Library.Word" "HOL-Library.AList"
begin

section \<open>Python values\<close>

text \<open>
  The array metadata engine of zarr (\<^verbatim>\<open>src/zarr/core/metadata/v2.py\<close>) is embedded
  shallowly: every function of the source is a HOL function of the same name, an
  exception is the left summand of a result, a warning is an entry of the list of
  warnings a function returns beside its result.
\<close>

type_synonym byte = "8 word"

text \<open>
  A Python \<^verbatim>\<open>float\<close>: a finite value is identified with the rational number it denotes
  (every binary floating-point number is one), beside the two infinities and NaN.
\<close>

datatype float_val = Fin rat | PInf | NInf | NaN

text \<open>JSON-compatible values (\<^verbatim>\<open>zarr.core.common.JSON\<close>); a dict is a list of its items.\<close>

datatype json =
    JNull
  | JBool bool
  | JInt int
  | JNum float_val
  | JStr string
  | JArray "json list"
  | JObject "(string \<times> json) list"

text \<open>
  The objects a fill value can be: the field is annotated
  \<^verbatim>\<open>int | float | str | bytes | None\<close>, and \<^verbatim>\<open>parse_fill_value\<close> also tests for
  \<^verbatim>\<open>numpy.void\<close>. A numpy scalar of a kind stands with the Python object of that kind
  (\<^verbatim>\<open>numpy.str_\<close> is a \<^verbatim>\<open>str\<close>, \<^verbatim>\<open>numpy.bytes_\<close> is a \<^verbatim>\<open>bytes\<close>).
\<close>

datatype pyval =
    PyNone
  | PyBool bool
  | PyInt int
  | PyFloat float_val
  | PyStr string
  | PyBytes "byte list"
  | NpVoid "byte list"

text \<open>The exceptions of the source, each with the message it is raised with.\<close>

datatype message =
    NoMessage
  | ShapeMismatch nat nat
  | NegativeShape
  | InvalidZarrFormat
  | InvalidOrder string
  | InvalidSeparator string
  | InvalidCompressor
  | InvalidFilterAt nat
  | InvalidFilters
  | FillValueNotUnicode pyval
  | FillValueInvalid pyval
  | MissingKey string
  | MissingArguments "string list"
  | NoLen
  | External string
  | InvalidScalar
  | InvalidJsonValue
  | NoMatchingWrapper string
  | NotRegistered string

datatype error = ValueError message | TypeError message | KeyError message

datatype warning = UserWarning string

text \<open>\<^verbatim>\<open>bool(x)\<close> of a JSON value: \<^verbatim>\<open>None\<close>, \<^verbatim>\<open>False\<close>, zero and the empty containers are false.\<close>

fun truthy :: "json \<Rightarrow> bool" where
  "truthy JNull = False"
| "truthy (JBool b) = b"
| "truthy (JInt i) = (i \<noteq> 0)"
| "truthy (JNum f) = (f \<noteq> Fin 0)"
| "truthy (JStr s) = (s \<noteq> [])"
| "truthy (JArray xs) = (xs \<noteq> [])"
| "truthy (JObject kvs) = (kvs \<noteq> [])"

text \<open>\<^verbatim>\<open>str(n)\<close> of a Python int: its decimal digits, after a minus sign when negative.\<close>

definition digit_char :: "nat \<Rightarrow> char" where
  "digit_char d = ''0123456789'' ! d"

function str_nat :: "nat \<Rightarrow> string" where
  "str_nat n = (if n < 10 then [digit_char n] else str_nat (n div 10) @ [digit_char (n mod 10)])"
  by pat_completeness auto
termination
  by (relation "measure id") auto

declare str_nat.simps [simp del]

definition str_int :: "int \<Rightarrow> string" where
  "str_int i = (if i < 0 then CHR ''-'' # str_nat (nat (- i)) else str_nat (nat i))"

text \<open>The number that a string of decimal digits denotes, most significant digit first.\<close>

definition decimal_value :: "string \<Rightarrow> nat" where
  "decimal_value s = foldl (\<lambda>acc c. 10 * acc + (of_char c - 48)) 0 s"

text \<open>
  The decimal string form of an integer, said without \<open>str_int\<close>: a string of decimal
  digits that denotes the absolute value and has no leading zero (the number zero is the
  single digit \<^verbatim>\<open>0\<close>), after a minus sign exactly when the integer is negative.
\<close>

definition decimal_digits :: "string \<Rightarrow> nat \<Rightarrow> bool" where
  "decimal_digits ds n =
     (ds \<noteq> [] \<and> list_all (\<lambda>c. c \<in> set ''0123456789'') ds \<and>
      (ds = ''0'' \<or> hd ds \<in> set ''123456789'') \<and> decimal_value ds = n)"

definition decimal_form :: "string \<Rightarrow> int \<Rightarrow> bool" where
  "decimal_form s i =
     (if i < 0 then
        (case s of [] \<Rightarrow> False | c # ds \<Rightarrow> c = CHR ''-'' \<and> decimal_digits ds (nat (- i)))
      else decimal_digits s (nat i))"

text \<open>\<^verbatim>\<open>sep.join(parts)\<close>: the separator stands between consecutive parts only.\<close>

fun join :: "string \<Rightarrow> string list \<Rightarrow> string" where
  "join sep [] = []"
| "join sep [x] = x"
| "join sep (x # y # ys) = x @ sep @ join sep (y # ys)"

section \<open>Data types, codecs and the libraries behind them\<close>

text \<open>What \<^verbatim>\<open>parse_fill_value\<close> reads of a \<^verbatim>\<open>numpy.dtype\<close>: its kind character, whether it holds
  Python objects, and its array-protocol string.\<close>

record np_dtype =
  kind :: char
  hasobject :: bool
  dtype_str :: string

text \<open>A codec configuration: the dict of \<^verbatim>\<open>Codec.get_config()\<close>, as the list of its items.\<close>

type_synonym codec_config = "(string \<times> json) list"

text \<open>
  The collaborators outside the repository's files: a type wrapper \<open>'w\<close>
  (\<^verbatim>\<open>zarr.core.dtype.wrapper.DTypeWrapper\<close>) with its methods, a codec \<open>'c\<close>
  (\<^verbatim>\<open>numcodecs.abc.Codec\<close>) with \<^verbatim>\<open>numcodecs.get_codec\<close>, the three numpy
  constructions of \<^verbatim>\<open>parse_fill_value\<close>, the resolution of a stored dtype descriptor \<open>'d\<close>
  and the base64 decoder of the standard library. Each is a parameter; a call that can
  raise returns \<open>None\<close> or an error.
\<close>

record ('w, 'c, 'd) externals =
  to_dtype :: "'w \<Rightarrow> np_dtype"
  to_json_value_v2 :: "'w \<Rightarrow> pyval \<Rightarrow> error + json"
  get_name_v2 :: "'w \<Rightarrow> string"
  get_codec :: "codec_config \<Rightarrow> error + 'c"
  get_config :: "'c \<Rightarrow> codec_config"
  np_zeros :: "np_dtype \<Rightarrow> pyval"
  np_array :: "pyval \<Rightarrow> np_dtype \<Rightarrow> pyval option"
  np_array_view :: "pyval \<Rightarrow> np_dtype \<Rightarrow> pyval option"
  get_data_type_from_numpy :: "'d \<Rightarrow> error + 'w"
  standard_b64decode :: "pyval \<Rightarrow> error + byte list"

section \<open>The array metadata document\<close>

datatype MemoryOrder = OrderC | OrderF

datatype separator = Dot | Slash

fun order_str :: "MemoryOrder \<Rightarrow> string" where
  "order_str OrderC = ''C''"
| "order_str OrderF = ''F''"

fun separator_str :: "separator \<Rightarrow> string" where
  "separator_str Dot = ''.''"
| "separator_str Slash = ''/''"

record ('w, 'c) ArrayV2Metadata =
  shape :: "int list"
  chunks :: "int list"
  dtype :: 'w
  fill_value :: pyval
  order :: MemoryOrder
  filters :: "'c list option"
  dimension_separator :: separator
  compressor :: "'c option"
  attributes :: "(string \<times> json) list"
  zarr_format :: int

text \<open>
  The arguments of \<^verbatim>\<open>ArrayV2Metadata.__init__\<close>, all keyword-only. An argument the source
  tests with \<^verbatim>\<open>isinstance\<close> is a datatype with one constructor for each case the tests
  tell apart and one for every other object.
\<close>

datatype 'w dtype_arg = Wrapper 'w | NotAWrapper

datatype 'c compressor_arg =
    CompressorNone
  | CompressorCodec 'c
  | CompressorDict codec_config
  | CompressorOther

datatype 'c filter_item = ItemCodec 'c | ItemDict codec_config | ItemOther

text \<open>\<open>FiltersIter\<close> is a list or tuple; \<open>FiltersOther\<close> is an object that is not \<^verbatim>\<open>None\<close>,
  not iterable and not a codec.\<close>

datatype 'c filters_arg =
    FiltersNone
  | FiltersIter "'c filter_item list"
  | FiltersCodec 'c
  | FiltersOther

record ('w, 'c) init_args =
  arg_shape :: "int list"
  arg_dtype :: "'w dtype_arg"
  arg_chunks :: "int list"
  arg_fill_value :: pyval
  arg_order :: string
  arg_dimension_separator :: string
  arg_compressor :: "'c compressor_arg"
  arg_filters :: "'c filters_arg"
  arg_attributes :: "(string \<times> json) list option"

text \<open>
  Modelled from the spec: \<^verbatim>\<open>parse_shapelike\<close> of \<^verbatim>\<open>zarr.core.common\<close> is not among the
  source files. Shape and chunk shape are coerced to sequences of non-negative integers;
  a negative entry is refused.
\<close>

definition parse_shapelike :: "int list \<Rightarrow> error + int list" where
  "parse_shapelike data =
     (if \<exists>v \<in> set data. v < 0 then Inl (ValueError NegativeShape) else Inr data)"

text \<open>
  Modelled from the spec: \<^verbatim>\<open>parse_separator\<close> of \<^verbatim>\<open>zarr.core.chunk_key_encodings\<close> is not
  among the source files. The dimension separator is validated against its two-element
  enumeration.
\<close>

definition parse_separator :: "string \<Rightarrow> error + separator" where
  "parse_separator data =
     (if data = ''.'' then Inr Dot
      else if data = ''/'' then Inr Slash
      else Inl (ValueError (InvalidSeparator data)))"

text \<open>
  Modelled from the spec: \<^verbatim>\<open>parse_attributes\<close> of \<^verbatim>\<open>zarr.core.metadata.common\<close> is not
  among the source files. The attributes are a mapping of user attributes; the
  constructor's default \<^verbatim>\<open>None\<close> is the empty mapping.
\<close>

definition parse_attributes :: "(string \<times> json) list option \<Rightarrow> (string \<times> json) list" where
  "parse_attributes data = (case data of None \<Rightarrow> [] | Some d \<Rightarrow> d)"

text \<open>\<^verbatim>\<open>parse_indexing_order\<close> (\<^verbatim>\<open>src/zarr/core/config.py\<close>).\<close>

definition parse_indexing_order :: "string \<Rightarrow> error + MemoryOrder" where
  "parse_indexing_order data =
     (if data = ''C'' then Inr OrderC
      else if data = ''F'' then Inr OrderF
      else Inl (ValueError (InvalidOrder data)))"

definition parse_zarr_format :: "int \<Rightarrow> error + int" where
  "parse_zarr_format data = (if data = 2 then Inr 2 else Inl (ValueError InvalidZarrFormat))"

text \<open>The loop of \<^verbatim>\<open>parse_filters\<close> over \<^verbatim>\<open>enumerate(data)\<close>, with the list \<^verbatim>\<open>out\<close> it appends to.\<close>

fun parse_filters_loop ::
  "('w, 'c, 'd) externals \<Rightarrow> nat \<Rightarrow> 'c filter_item list \<Rightarrow> 'c list \<Rightarrow> error + 'c list" where
  "parse_filters_loop ext idx [] out = Inr out"
| "parse_filters_loop ext idx (val # rest) out =
     (case val of
        ItemCodec c \<Rightarrow> parse_filters_loop ext (Suc idx) rest (out @ [c])
      | ItemDict d \<Rightarrow>
          (case get_codec ext d of
             Inl e \<Rightarrow> Inl e
           | Inr c \<Rightarrow> parse_filters_loop ext (Suc idx) rest (out @ [c]))
      | ItemOther \<Rightarrow> Inl (TypeError (InvalidFilterAt idx)))"

definition parse_filters ::
  "('w, 'c, 'd) externals \<Rightarrow> 'c filters_arg \<Rightarrow> error + 'c list option" where
  "parse_filters ext data =
     (case data of
        FiltersNone \<Rightarrow> Inr None
      | FiltersIter items \<Rightarrow>
          (case parse_filters_loop ext 0 items [] of
             Inl e \<Rightarrow> Inl e
           | Inr out \<Rightarrow> if length out = 0 then Inr None else Inr (Some out))
      | FiltersCodec c \<Rightarrow> Inr (Some [c])
      | FiltersOther \<Rightarrow> Inl (TypeError InvalidFilters))"

definition parse_compressor ::
  "('w, 'c, 'd) externals \<Rightarrow> 'c compressor_arg \<Rightarrow> error + 'c option" where
  "parse_compressor ext data =
     (case data of
        CompressorNone \<Rightarrow> Inr None
      | CompressorCodec c \<Rightarrow> Inr (Some c)
      | CompressorDict d \<Rightarrow> (case get_codec ext d of Inl e \<Rightarrow> Inl e | Inr c \<Rightarrow> Inr (Some c))
      | CompressorOther \<Rightarrow> Inl (ValueError InvalidCompressor))"

text \<open>\<^verbatim>\<open>isinstance(fill_value, np.void)\<close>, \<^verbatim>\<open>fill_value == 0\<close>, \<^verbatim>\<open>isinstance(fill_value, str)\<close>
  and \<^verbatim>\<open>isinstance(fill_value, bytes)\<close>.\<close>

fun is_np_void :: "pyval \<Rightarrow> bool" where
  "is_np_void (NpVoid bs) = True"
| "is_np_void v = False"

fun eq_zero :: "pyval \<Rightarrow> bool" where
  "eq_zero (PyBool b) = (\<not> b)"
| "eq_zero (PyInt i) = (i = 0)"
| "eq_zero (PyFloat f) = (f = Fin 0)"
| "eq_zero v = False"

fun is_str :: "pyval \<Rightarrow> bool" where
  "is_str (PyStr s) = True"
| "is_str v = False"

fun is_bytes :: "pyval \<Rightarrow> bool" where
  "is_bytes (PyBytes bs) = True"
| "is_bytes v = False"

text \<open>
  \<^verbatim>\<open>parse_fill_value\<close>. \<open>np_zeros ext dt\<close> is \<^verbatim>\<open>np.zeros((), dtype=dtype)[()]\<close>,
  \<open>np_array_view ext fv dt\<close> is \<^verbatim>\<open>np.array(fill_value, dtype=dtype.str).view(dtype)[()]\<close> and
  \<open>np_array ext fv dt\<close> is \<^verbatim>\<open>np.array(fill_value, dtype=dtype)[()]\<close>; \<open>None\<close> is any
  exception of theirs, which the \<^verbatim>\<open>except\<close> clause turns into a \<^verbatim>\<open>ValueError\<close>.
\<close>

definition parse_fill_value ::
  "('w, 'c, 'd) externals \<Rightarrow> pyval \<Rightarrow> np_dtype \<Rightarrow> error + pyval" where
  "parse_fill_value ext fv dt =
     (if fv = PyNone \<or> hasobject dt then Inr fv
      else if \<not> is_np_void fv \<and> eq_zero fv then Inr (np_zeros ext dt)
      else if kind dt = CHR ''U'' then
        (if \<not> is_str fv then Inl (ValueError (FillValueNotUnicode fv))
         else Inr fv)
      else
        (case (if is_bytes fv \<and> kind dt = CHR ''V'' then np_array_view ext fv dt
               else np_array ext fv dt) of
           None \<Rightarrow> Inl (ValueError (FillValueInvalid fv))
         | Some v \<Rightarrow> Inr v))"

definition parse_metadata ::
  "('w, 'c) ArrayV2Metadata \<Rightarrow> error + ('w, 'c) ArrayV2Metadata" where
  "parse_metadata data =
     (let l_chunks = length (chunks data); l_shape = length (shape data)
      in if l_chunks \<noteq> l_shape then Inl (ValueError (ShapeMismatch l_chunks l_shape))
         else Inr data)"

text \<open>
  \<^verbatim>\<open>ArrayV2Metadata.__init__\<close>: the parsers run in the order of the source, the first
  exception leaves the constructor, and \<^verbatim>\<open>parse_metadata\<close> checks the assembled document
  last. The result is paired with the warnings emitted: no statement of the constructor or
  of a parser calls \<^verbatim>\<open>warnings.warn\<close>, so there are none.
\<close>

definition init ::
  "('w, 'c, 'd) externals \<Rightarrow> ('w, 'c) init_args
     \<Rightarrow> warning list \<times> (error + ('w, 'c) ArrayV2Metadata)" where
  "init ext args =
     ([],
      case parse_shapelike (arg_shape args) of Inl e \<Rightarrow> Inl e | Inr shape_parsed \<Rightarrow>
      case parse_shapelike (arg_chunks args) of Inl e \<Rightarrow> Inl e | Inr chunks_parsed \<Rightarrow>
      case arg_dtype args of NotAWrapper \<Rightarrow> Inl (TypeError NoMessage) | Wrapper dt \<Rightarrow>
      case parse_compressor ext (arg_compressor args) of Inl e \<Rightarrow> Inl e | Inr compressor_parsed \<Rightarrow>
      case parse_indexing_order (arg_order args) of Inl e \<Rightarrow> Inl e | Inr order_parsed \<Rightarrow>
      case parse_separator (arg_dimension_separator args) of Inl e \<Rightarrow> Inl e
        | Inr dimension_separator_parsed \<Rightarrow>
      case parse_filters ext (arg_filters args) of Inl e \<Rightarrow> Inl e | Inr filters_parsed \<Rightarrow>
      case parse_fill_value ext (arg_fill_value args) (to_dtype ext dt) of Inl e \<Rightarrow> Inl e
        | Inr fill_value_parsed \<Rightarrow>
      parse_metadata
        \<lparr>shape = shape_parsed, chunks = chunks_parsed, dtype = dt,
         fill_value = fill_value_parsed, order = order_parsed, filters = filters_parsed,
         dimension_separator = dimension_separator_parsed, compressor = compressor_parsed,
         attributes = parse_attributes (arg_attributes args), zarr_format = 2\<rparr>)"

text \<open>
  \<^verbatim>\<open>dataclasses.replace(self, ...)\<close> reads every \<^verbatim>\<open>init\<close> field of the document
  (\<^verbatim>\<open>zarr_format\<close> is declared \<^verbatim>\<open>init=False\<close>) and calls the class with them as keyword
  arguments; the class keeps the \<^verbatim>\<open>__init__\<close> it defines, so the call runs the constructor
  above. \<open>replace_args\<close> is the keyword arguments read from the stored fields.
\<close>

definition replace_args :: "('w, 'c) ArrayV2Metadata \<Rightarrow> ('w, 'c) init_args" where
  "replace_args m =
     \<lparr>arg_shape = shape m, arg_dtype = Wrapper (dtype m), arg_chunks = chunks m,
      arg_fill_value = fill_value m, arg_order = order_str (order m),
      arg_dimension_separator = separator_str (dimension_separator m),
      arg_compressor = (case compressor m of None \<Rightarrow> CompressorNone | Some c \<Rightarrow> CompressorCodec c),
      arg_filters = (case filters m of None \<Rightarrow> FiltersNone | Some fs \<Rightarrow> FiltersIter (map ItemCodec fs)),
      arg_attributes = Some (attributes m)\<rparr>"

definition update_shape ::
  "('w, 'c, 'd) externals \<Rightarrow> ('w, 'c) ArrayV2Metadata \<Rightarrow> int list
     \<Rightarrow> warning list \<times> (error + ('w, 'c) ArrayV2Metadata)" where
  "update_shape ext m new_shape = init ext ((replace_args m)\<lparr>arg_shape := new_shape\<rparr>)"

definition update_attributes ::
  "('w, 'c, 'd) externals \<Rightarrow> ('w, 'c) ArrayV2Metadata \<Rightarrow> (string \<times> json) list
     \<Rightarrow> warning list \<times> (error + ('w, 'c) ArrayV2Metadata)" where
  "update_attributes ext m new_attributes =
     init ext ((replace_args m)\<lparr>arg_attributes := Some new_attributes\<rparr>)"

definition encode_chunk_key :: "('w, 'c) ArrayV2Metadata \<Rightarrow> int list \<Rightarrow> string" where
  "encode_chunk_key m chunk_coords =
     (let chunk_identifier = join (separator_str (dimension_separator m)) (map str_int chunk_coords)
      in if chunk_identifier = [] then ''0'' else chunk_identifier)"

text \<open>
  Modelled from the spec: \<^verbatim>\<open>ArraySpec\<close> of \<^verbatim>\<open>zarr.core.array_spec\<close> is not among the source
  files. The per-chunk specification is the record of the five values it is built from:
  chunk shape, data type, fill value, and the caller's runtime configuration \<open>'cfg\<close> and
  buffer prototype \<open>'p\<close>.
\<close>

record ('w, 'cfg, 'p) ArraySpec =
  spec_shape :: "int list"
  spec_dtype :: 'w
  spec_fill_value :: pyval
  spec_config :: 'cfg
  spec_prototype :: 'p

definition get_chunk_spec ::
  "('w, 'c) ArrayV2Metadata \<Rightarrow> int list \<Rightarrow> 'cfg \<Rightarrow> 'p \<Rightarrow> ('w, 'cfg, 'p) ArraySpec" where
  "get_chunk_spec m chunk_coords array_config prototype =
     \<lparr>spec_shape = chunks m, spec_dtype = dtype m, spec_fill_value = fill_value m,
      spec_config = array_config, spec_prototype = prototype\<rparr>"

text \<open>
  \<^verbatim>\<open>ArrayV2Metadata.to_dict\<close>. \<^verbatim>\<open>Metadata.to_dict\<close> of the base class (\<^verbatim>\<open>zarr.abc.metadata\<close>,
  not among the source files) gives one mapping with the literal field values, in the
  declared order of the fields; the compressor and every filter are then replaced by
  their configuration, the fill value by its JSON form and the data type by its name.
  \<^verbatim>\<open>codec_config["id"]\<close> and \<^verbatim>\<open>codec_config.pop("checksum")\<close> raise \<^verbatim>\<open>KeyError\<close> on a key
  the dict does not have; \<^verbatim>\<open>codec_config.get("checksum", False)\<close> does not.
\<close>

definition to_dict ::
  "('w, 'c, 'd) externals \<Rightarrow> ('w, 'c) ArrayV2Metadata \<Rightarrow> error + (string \<times> json) list" where
  "to_dict ext m =
     (case
        (case compressor m of
           None \<Rightarrow> Inr JNull
         | Some c \<Rightarrow>
             (let codec_config = get_config ext c in
              case map_of codec_config ''id'' of
                None \<Rightarrow> Inl (KeyError (MissingKey ''id''))
              | Some ident \<Rightarrow>
                  if ident = JStr ''zstd'' \<and>
                     \<not> truthy (case map_of codec_config ''checksum'' of
                                 None \<Rightarrow> JBool False | Some v \<Rightarrow> v)
                  then
                    (case map_of codec_config ''checksum'' of
                       None \<Rightarrow> Inl (KeyError (MissingKey ''checksum''))
                     | Some v \<Rightarrow> Inr (JObject (AList.delete ''checksum'' codec_config)))
                  else Inr (JObject codec_config)))
      of Inl e \<Rightarrow> Inl e | Inr compressor_json \<Rightarrow>
      let filters_json =
            (case filters m of
               None \<Rightarrow> JNull
             | Some raw_filters \<Rightarrow> JArray (map (\<lambda>f. JObject (get_config ext f)) raw_filters))
      in
      case (if fill_value m \<noteq> PyNone then to_json_value_v2 ext (dtype m) (fill_value m)
            else Inr JNull)
      of Inl e \<Rightarrow> Inl e | Inr fill_value_json \<Rightarrow>
      Inr [(''shape'', JArray (map JInt (shape m))),
           (''chunks'', JArray (map JInt (chunks m))),
           (''dtype'', JStr (get_name_v2 ext (dtype m))),
           (''fill_value'', fill_value_json),
           (''order'', JStr (order_str (order m))),
           (''filters'', filters_json),
           (''dimension_separator'', JStr (separator_str (dimension_separator m))),
           (''compressor'', compressor_json),
           (''attributes'', JObject (attributes m)),
           (''zarr_format'', JInt (zarr_format m))])"

text \<open>
  The dict given to \<^verbatim>\<open>ArrayV2Metadata.from_dict\<close>, by key: \<open>None\<close> is a key the dict does
  not have (for \<^verbatim>\<open>attributes\<close>, \<^verbatim>\<open>compressor\<close> and \<^verbatim>\<open>dimension_separator\<close> the
  constructor's default then applies). Keys outside the expected set are dropped by
  \<^verbatim>\<open>from_dict\<close> before the constructor is called.
\<close>

record ('c, 'd) v2_document =
  doc_zarr_format :: "int option"
  doc_shape :: "int list option"
  doc_chunks :: "int list option"
  doc_dtype :: "'d option"
  doc_fill_value :: "pyval option"
  doc_order :: "string option"
  doc_filters :: "'c filters_arg option"
  doc_dimension_separator :: "string option"
  doc_compressor :: "'c compressor_arg option"
  doc_attributes :: "(string \<times> json) list option"
  doc_other_keys :: "(string \<times> json) list"

definition empty_filters_msg :: string where
  "empty_filters_msg =
     ''Found an empty list of filters in the array metadata document. '' @
     ''This is contrary to the Zarr V2 specification, and will cause an error in the future. '' @
     ''Use None (or Null in a JSON document) instead of an empty list of filters.''"

text \<open>The required keyword arguments of the constructor that \<^verbatim>\<open>cls(**_data)\<close> does not get.\<close>

definition missing_arguments :: "('c, 'd) v2_document \<Rightarrow> string list" where
  "missing_arguments data =
     (if doc_shape data = None then [''shape''] else []) @
     (if doc_chunks data = None then [''chunks''] else []) @
     (if doc_fill_value data = None then [''fill_value''] else []) @
     (if doc_order data = None then [''order''] else [])"

text \<open>
  \<^verbatim>\<open>ArrayV2Metadata.from_dict\<close>, with the warnings it emits: the format marker is checked,
  the dtype resolved, a fill value of a byte or opaque kind decoded from base64, an empty
  list of filters replaced by \<^verbatim>\<open>None\<close> under a warning, and the constructor called.
  \<^verbatim>\<open>len\<close> of an object that is no sequence raises \<^verbatim>\<open>TypeError\<close>.
\<close>

definition from_dict ::
  "('w, 'c, 'd) externals \<Rightarrow> ('c, 'd) v2_document
     \<Rightarrow> warning list \<times> (error + ('w, 'c) ArrayV2Metadata)" where
  "from_dict ext data =
     (case doc_zarr_format data of
        None \<Rightarrow> ([], Inl (KeyError (MissingKey ''zarr_format'')))
      | Some zf \<Rightarrow>
     (case parse_zarr_format zf of Inl e \<Rightarrow> ([], Inl e) | Inr zf_ok \<Rightarrow>
     (case doc_dtype data of
        None \<Rightarrow> ([], Inl (KeyError (MissingKey ''dtype'')))
      | Some descr \<Rightarrow>
     (case get_data_type_from_numpy ext descr of Inl e \<Rightarrow> ([], Inl e) | Inr dt \<Rightarrow>
     (case
        (if kind (to_dtype ext dt) \<in> set ''SV'' then
           (case doc_fill_value data of
              None \<Rightarrow> Inr None
            | Some fill_value_encoded \<Rightarrow>
                if fill_value_encoded \<noteq> PyNone then
                  (case standard_b64decode ext fill_value_encoded of
                     Inl e \<Rightarrow> Inl e
                   | Inr bs \<Rightarrow> Inr (Some (PyBytes bs)))
                else Inr (Some fill_value_encoded))
         else Inr (doc_fill_value data))
      of Inl e \<Rightarrow> ([], Inl e) | Inr fill \<Rightarrow>
     (case doc_filters data of
        None \<Rightarrow> ([], Inl (KeyError (MissingKey ''filters'')))
      | Some fl \<Rightarrow>
     (case
        (case fl of
           FiltersNone \<Rightarrow> Inr ([], FiltersNone)
         | FiltersIter items \<Rightarrow>
             if length items = 0 then Inr ([UserWarning empty_filters_msg], FiltersNone)
             else Inr ([], fl)
         | FiltersCodec c \<Rightarrow> Inl (TypeError NoLen)
         | FiltersOther \<Rightarrow> Inl (TypeError NoLen))
      of Inl e \<Rightarrow> ([], Inl e) | Inr (ws, filters_arg) \<Rightarrow>
     (case (doc_shape data, doc_chunks data, fill, doc_order data) of
        (Some sh, Some ch, Some fv, Some ord) \<Rightarrow>
          (case init ext
                  \<lparr>arg_shape = sh, arg_dtype = Wrapper dt, arg_chunks = ch,
                   arg_fill_value = fv, arg_order = ord,
                   arg_dimension_separator =
                     (case doc_dimension_separator data of None \<Rightarrow> ''.'' | Some s \<Rightarrow> s),
                   arg_compressor =
                     (case doc_compressor data of None \<Rightarrow> CompressorNone | Some c \<Rightarrow> c),
                   arg_filters = filters_arg,
                   arg_attributes = doc_attributes data\<rparr>
           of (ws', r) \<Rightarrow> (ws @ ws', r))
      | _ \<Rightarrow> (ws, Inl (TypeError (MissingArguments (missing_arguments data))))))))))))"

text \<open>
  The documents that exist: what the constructor, \<^verbatim>\<open>from_dict\<close>, \<^verbatim>\<open>update_shape\<close> and
  \<^verbatim>\<open>update_attributes\<close> return (the class is frozen, so no field is assigned later).
\<close>

inductive constructed ::
  "('w, 'c, 'd) externals \<Rightarrow> ('w, 'c) ArrayV2Metadata \<Rightarrow> bool"
  for ext :: "('w, 'c, 'd) externals" where
  by_init: "init ext args = (ws, Inr m) \<Longrightarrow> constructed ext m"
| by_from_dict: "from_dict ext data = (ws, Inr m) \<Longrightarrow> constructed ext m"
| by_update_shape:
    "constructed ext m \<Longrightarrow> update_shape ext m new_shape = (ws, Inr m')
       \<Longrightarrow> constructed ext m'"
| by_update_attributes:
    "constructed ext m \<Longrightarrow> update_attributes ext m new_attributes = (ws, Inr m')
       \<Longrightarrow> constructed ext m'"

text \<open>Every parser the constructor runs before \<^verbatim>\<open>parse_metadata\<close> accepts its argument.\<close>

definition fields_parse :: "('w, 'c, 'd) externals \<Rightarrow> ('w, 'c) init_args \<Rightarrow> bool" where
  "fields_parse ext args =
     (\<not> isl (parse_shapelike (arg_shape args)) \<and>
      \<not> isl (parse_shapelike (arg_chunks args)) \<and>
      (case arg_dtype args of
         NotAWrapper \<Rightarrow> False
       | Wrapper dt \<Rightarrow>
           \<not> isl (parse_fill_value ext (arg_fill_value args) (to_dtype ext dt))) \<and>
      \<not> isl (parse_compressor ext (arg_compressor args)) \<and>
      \<not> isl (parse_indexing_order (arg_order args)) \<and>
      \<not> isl (parse_separator (arg_dimension_separator args)) \<and>
      \<not> isl (parse_filters ext (arg_filters args)))"

text \<open>
  Parsing the stored fill value of a document again returns it unchanged, as numpy's cast
  of a scalar that already has the target dtype does.
\<close>

definition fill_value_stable ::
  "('w, 'c, 'd) externals \<Rightarrow> ('w, 'c) ArrayV2Metadata \<Rightarrow> bool" where
  "fill_value_stable ext m =
     (parse_fill_value ext (fill_value m) (to_dtype ext (dtype m)) = Inr (fill_value m))"

subsection \<open>A concrete environment\<close>

text \<open>
  An instance of the collaborators, for evaluating the definitions on concrete inputs: a
  type wrapper is the numpy name of its dtype (\<^verbatim>\<open><i4\<close>, \<^verbatim>\<open><U4\<close>, \<^verbatim>\<open>|V2\<close>, \<^verbatim>\<open>|O\<close>), a codec
  is its configuration. The numpy constructions are given as far as the examples need
  them: \<^verbatim>\<open>np.zeros((), dtype)[()]\<close> is \<^verbatim>\<open>0\<close>, the empty string for the unicode dtype and two
  zero bytes for the opaque dtype; \<^verbatim>\<open>np.array(v, dtype)[()]\<close> is given for the 32-bit integer
  dtype, where it keeps an integer within the range of the type, reads a boolean as 0 or
  1 and cuts a finite float towards zero when the result is within the range; every
  other value is refused here, as numpy refuses an integer out of range and a string
  that spells no number.
\<close>

definition example_to_dtype :: "string \<Rightarrow> np_dtype" where
  "example_to_dtype w =
     \<lparr>kind = (if w = ''<U4'' then CHR ''U'' else if w = ''|O'' then CHR ''O''
              else if w = ''|V2'' then CHR ''V'' else CHR ''i''),
      hasobject = (w = ''|O''), dtype_str = w\<rparr>"

definition example_externals :: "(string, codec_config, string) externals" where
  "example_externals =
     \<lparr>to_dtype = example_to_dtype,
      to_json_value_v2 =
        (\<lambda>w v. case v of PyInt i \<Rightarrow> Inr (JInt i) | PyStr s \<Rightarrow> Inr (JStr s)
                | _ \<Rightarrow> Inl (TypeError (External ''to_json_value''))),
      get_name_v2 = (\<lambda>w. w),
      get_codec = (\<lambda>cfg. Inr cfg),
      get_config = (\<lambda>c. c),
      np_zeros =
        (\<lambda>dt. if kind dt = CHR ''U'' then PyStr []
              else if kind dt = CHR ''V'' then NpVoid [0, 0]
              else PyInt 0),
      np_array =
        (\<lambda>v dt.
           if kind dt \<noteq> CHR ''i'' then None
           else
             (case (case v of
                      PyInt i \<Rightarrow> Some i
                    | PyBool b \<Rightarrow> Some (if b then 1 else 0)
                    | PyFloat (Fin q) \<Rightarrow> Some (if q < 0 then - \<lfloor>- q\<rfloor> else \<lfloor>q\<rfloor>)
                    | _ \<Rightarrow> None) of
                None \<Rightarrow> None
              | Some i \<Rightarrow>
                  if - 2147483648 \<le> i \<and> i \<le> 2147483647 then Some (PyInt i) else None)),
      np_array_view = (\<lambda>v dt. case v of PyBytes bs \<Rightarrow> Some (NpVoid bs) | _ \<Rightarrow> None),
      get_data_type_from_numpy = (\<lambda>descr. Inr descr),
      standard_b64decode = (\<lambda>v. Inl (TypeError (External ''b64decode'')))\<rparr>"

definition example_args :: "(string, codec_config) init_args" where
  "example_args =
     \<lparr>arg_shape = [10, 10], arg_dtype = Wrapper ''<i4'', arg_chunks = [5, 5],
      arg_fill_value = PyInt 0, arg_order = ''C'', arg_dimension_separator = ''.'',
      arg_compressor = CompressorNone, arg_filters = FiltersNone, arg_attributes = None\<rparr>"

definition example_metadata :: "(string, codec_config) ArrayV2Metadata" where
  "example_metadata =
     \<lparr>shape = [10, 10], chunks = [5, 5], dtype = ''<i4'', fill_value = PyInt 0,
      order = OrderC, filters = None, dimension_separator = Dot, compressor = None,
      attributes = [], zarr_format = 2\<rparr>"

definition example_document :: "(codec_config, string) v2_document" where
  "example_document =
     \<lparr>doc_zarr_format = Some 2, doc_shape = Some [10, 10], doc_chunks = Some [5, 5],
      doc_dtype = Some ''<i4'', doc_fill_value = Some (PyInt 0), doc_order = Some ''C'',
      doc_filters = Some (FiltersIter []), doc_dimension_separator = None,
      doc_compressor = None, doc_attributes = None, doc_other_keys = []\<rparr>"

section \<open>Type wrappers and the data type registry\<close>

text \<open>
  The type wrappers and their registry (\<^verbatim>\<open>zarr.core.dtype\<close>) are not among the source
  files; only their tests (\<^verbatim>\<open>tests/test_dtype.py\<close>) are. The definitions of this section
  follow the spec's description of them and the tables of the tests.
\<close>

subsection \<open>Base64\<close>

text \<open>
  Modelled from the spec: the wrappers of the fixed-length byte kinds are not among the
  source files; their JSON form is the base64 string of the raw bytes. This is the
  standard alphabet, in which a character stands for the six bits of its position.
\<close>

definition b64_alphabet :: string where
  "b64_alphabet = ''ABCDEFGHIJKLMNOPQRSTUVWXYZabcdefghijklmnopqrstuvwxyz0123456789+/''"

definition b64_char :: "nat \<Rightarrow> char" where
  "b64_char n = b64_alphabet ! n"

fun index_of :: "'a \<Rightarrow> 'a list \<Rightarrow> nat option" where
  "index_of x [] = None"
| "index_of x (y # ys) = (if x = y then Some 0 else map_option Suc (index_of x ys))"

definition b64_value :: "char \<Rightarrow> nat option" where
  "b64_value c = index_of c b64_alphabet"

text \<open>
  Modelled from the spec: the base64 string of raw bytes (the wrappers that encode with it
  are not among the source files). Three bytes are the 24 bits of four characters; a last
  group of one or two bytes is filled with zero bits and padded with \<^verbatim>\<open>=\<close>.
\<close>

fun b64encode :: "byte list \<Rightarrow> string" where
  "b64encode [] = []"
| "b64encode [a] =
     (let n = unat a * 65536
      in [b64_char (n div 262144), b64_char (n div 4096 mod 64), CHR ''='', CHR ''=''])"
| "b64encode [a, b] =
     (let n = unat a * 65536 + unat b * 256
      in [b64_char (n div 262144), b64_char (n div 4096 mod 64), b64_char (n div 64 mod 64),
          CHR ''=''])"
| "b64encode (a # b # c # rest) =
     (let n = unat a * 65536 + unat b * 256 + unat c
      in [b64_char (n div 262144), b64_char (n div 4096 mod 64), b64_char (n div 64 mod 64),
          b64_char (n mod 64)] @ b64encode rest)"

text \<open>
  Modelled from the spec: base64 decoding (the wrappers that decode with it are not among
  the source files). Four characters are three bytes; padding is read in the last group
  only, and a character outside the alphabet or a length that is no multiple of four
  gives \<open>None\<close>.
\<close>

fun b64decode :: "string \<Rightarrow> byte list option" where
  "b64decode [] = Some []"
| "b64decode (c0 # c1 # c2 # c3 # rest) =
     (case (b64_value c0, b64_value c1) of
        (Some s0, Some s1) \<Rightarrow>
          if c2 = CHR ''='' \<and> c3 = CHR ''='' \<and> rest = [] then
            Some [of_nat ((s0 * 64 + s1) div 16)]
          else
            (case b64_value c2 of
               None \<Rightarrow> None
             | Some s2 \<Rightarrow>
                 if c3 = CHR ''='' \<and> rest = [] then
                   (let n = (s0 * 64 + s1) * 64 + s2
                    in Some [of_nat (n div 1024), of_nat (n div 4 mod 256)])
                 else
                   (case b64_value c3 of
                      None \<Rightarrow> None
                    | Some s3 \<Rightarrow>
                        (let n = ((s0 * 64 + s1) * 64 + s2) * 64 + s3
                         in map_option
                              (\<lambda>bs. [of_nat (n div 65536), of_nat (n div 256 mod 256),
                                     of_nat (n mod 256)] @ bs)
                              (b64decode rest))))
      | _ \<Rightarrow> None)"
| "b64decode cs = None"

subsection \<open>Wrappers and scalars\<close>

text \<open>Modelled from the spec: the two format versions (\<^verbatim>\<open>zarr.core.common.ZarrFormat\<close> is not
  among the source files).\<close>

datatype ZarrFormat = V2 | V3

text \<open>
  Modelled from the spec: the wrapper classes are not among the source files. One
  constructor for each supported wrapper of the tests, with its parameters: fixed length,
  field list, time unit.
\<close>

datatype ZDType =
    Bool
  | Int8 | Int16 | Int32 | Int64
  | UInt8 | UInt16 | UInt32 | UInt64
  | Float16 | Float32 | Float64
  | Complex64 | Complex128
  | FixedLengthAscii nat
  | FixedLengthBytes nat
  | FixedLengthUnicode nat
  | VariableLengthString
  | Structured "(string \<times> ZDType) list"
  | DateTime64 string

text \<open>
  Modelled from the spec: the scalars of the native types of the wrappers (the wrappers
  are not among the source files). A timestamp is its integer offset from the epoch in
  the unit of its type, or not-a-time; a record is the list of its field values in the
  order of declaration.
\<close>

datatype scalar =
    SBool bool
  | SInt int
  | SFloat float_val
  | SComplex float_val float_val
  | SBytes "byte list"
  | SVoid "byte list"
  | SStr string
  | SDateTime int
  | SNaT
  | SRecord "scalar list"

text \<open>
  Modelled from the spec: the kinds of the wrappers, which are not among the source
  files: the least and greatest value of a signed or unsigned integer type of 8 to 64
  bits, the floating-point types and the complex types.
\<close>

fun int_range :: "ZDType \<Rightarrow> (int \<times> int) option" where
  "int_range Int8 = Some (- 128, 127)"
| "int_range Int16 = Some (- 32768, 32767)"
| "int_range Int32 = Some (- 2147483648, 2147483647)"
| "int_range Int64 = Some (- 9223372036854775808, 9223372036854775807)"
| "int_range UInt8 = Some (0, 255)"
| "int_range UInt16 = Some (0, 65535)"
| "int_range UInt32 = Some (0, 4294967295)"
| "int_range UInt64 = Some (0, 18446744073709551615)"
| "int_range w = None"

fun is_float :: "ZDType \<Rightarrow> bool" where
  "is_float Float16 = True"
| "is_float Float32 = True"
| "is_float Float64 = True"
| "is_float w = False"

fun is_complex :: "ZDType \<Rightarrow> bool" where
  "is_complex Complex64 = True"
| "is_complex Complex128 = True"
| "is_complex w = False"

text \<open>
  Modelled from the spec: which scalars are values of the native type of a wrapper (the
  wrapper classes are not among the source files). A finite floating-point scalar is the
  rational it denotes; the precision of the three widths is not modelled, so the cast of
  a JSON number into a width is exact.
\<close>

fun scalar_of :: "ZDType \<Rightarrow> scalar \<Rightarrow> bool"
  and scalars_of :: "(string \<times> ZDType) list \<Rightarrow> scalar list \<Rightarrow> bool" where
  "scalar_of w x =
     (case x of
        SBool b \<Rightarrow> w = Bool
      | SInt i \<Rightarrow> (case int_range w of None \<Rightarrow> False | Some (lo, hi) \<Rightarrow> lo \<le> i \<and> i \<le> hi)
      | SFloat f \<Rightarrow> is_float w
      | SComplex re im \<Rightarrow> is_complex w
      | SBytes bs \<Rightarrow> (case w of FixedLengthAscii n \<Rightarrow> length bs \<le> n | _ \<Rightarrow> False)
      | SVoid bs \<Rightarrow> (case w of FixedLengthBytes n \<Rightarrow> length bs = n | _ \<Rightarrow> False)
      | SStr s \<Rightarrow>
          (case w of
             FixedLengthUnicode n \<Rightarrow> length s \<le> n
           | VariableLengthString \<Rightarrow> True
           | _ \<Rightarrow> False)
      | SDateTime t \<Rightarrow>
          (case w of
             DateTime64 u \<Rightarrow> - 9223372036854775808 < t \<and> t \<le> 9223372036854775807
           | _ \<Rightarrow> False)
      | SNaT \<Rightarrow> (case w of DateTime64 u \<Rightarrow> True | _ \<Rightarrow> False)
      | SRecord xs \<Rightarrow> (case w of Structured fs \<Rightarrow> scalars_of fs xs | _ \<Rightarrow> False))"
| "scalars_of [] xs = (xs = [])"
| "scalars_of (f # fs) xs =
     (case xs of [] \<Rightarrow> False | x # xs' \<Rightarrow> scalar_of (snd f) x \<and> scalars_of fs xs')"

text \<open>
  Modelled from the spec: the JSON form of a floating-point number (the wrappers are not
  among the source files). A finite number is a JSON number; NaN and the infinities are
  the sentinel strings of the zarr format, the same for both format versions.
\<close>

fun float_to_json :: "float_val \<Rightarrow> json" where
  "float_to_json (Fin q) = JNum (Fin q)"
| "float_to_json NaN = JStr ''NaN''"
| "float_to_json PInf = JStr ''Infinity''"
| "float_to_json NInf = JStr ''-Infinity''"

fun float_from_json :: "json \<Rightarrow> float_val option" where
  "float_from_json (JNum f) = Some f"
| "float_from_json (JInt i) = Some (Fin (of_int i))"
| "float_from_json (JStr s) =
     (if s = ''NaN'' then Some NaN
      else if s = ''Infinity'' then Some PInf
      else if s = ''-Infinity'' then Some NInf
      else None)"
| "float_from_json j = None"

text \<open>
  Modelled from the spec: \<^verbatim>\<open>to_json_value\<close> of the wrappers, which are not among the source
  files. Booleans are booleans, integers integers, floating-point numbers numbers (or a
  sentinel string), complex numbers the two-element array of real and imaginary part,
  fixed-length byte and opaque kinds the base64 string of the raw bytes, text the string
  itself, a record the array of its encoded fields in the order of declaration, a
  timestamp its integer offset from the epoch and not-a-time \<^verbatim>\<open>null\<close>. The rules are the
  same for both format versions.
\<close>

fun to_json_value :: "ZDType \<Rightarrow> scalar \<Rightarrow> ZarrFormat \<Rightarrow> error + json"
  and to_json_fields :: "(string \<times> ZDType) list \<Rightarrow> scalar list \<Rightarrow> ZarrFormat \<Rightarrow> error + json list"
  where
  "to_json_value w x v =
     (case x of
        SBool b \<Rightarrow> if w = Bool then Inr (JBool b) else Inl (TypeError InvalidScalar)
      | SInt i \<Rightarrow> if int_range w \<noteq> None then Inr (JInt i) else Inl (TypeError InvalidScalar)
      | SFloat f \<Rightarrow> if is_float w then Inr (float_to_json f) else Inl (TypeError InvalidScalar)
      | SComplex re im \<Rightarrow>
          if is_complex w then Inr (JArray [float_to_json re, float_to_json im])
          else Inl (TypeError InvalidScalar)
      | SBytes bs \<Rightarrow>
          (case w of
             FixedLengthAscii n \<Rightarrow> Inr (JStr (b64encode bs))
           | _ \<Rightarrow> Inl (TypeError InvalidScalar))
      | SVoid bs \<Rightarrow>
          (case w of
             FixedLengthBytes n \<Rightarrow> Inr (JStr (b64encode bs))
           | _ \<Rightarrow> Inl (TypeError InvalidScalar))
      | SStr s \<Rightarrow>
          (case w of
             FixedLengthUnicode n \<Rightarrow> Inr (JStr s)
           | VariableLengthString \<Rightarrow> Inr (JStr s)
           | _ \<Rightarrow> Inl (TypeError InvalidScalar))
      | SDateTime t \<Rightarrow>
          (case w of DateTime64 u \<Rightarrow> Inr (JInt t) | _ \<Rightarrow> Inl (TypeError InvalidScalar))
      | SNaT \<Rightarrow>
          (case w of DateTime64 u \<Rightarrow> Inr JNull | _ \<Rightarrow> Inl (TypeError InvalidScalar))
      | SRecord xs \<Rightarrow>
          (case w of
             Structured fs \<Rightarrow>
               (case to_json_fields fs xs v of Inl e \<Rightarrow> Inl e | Inr js \<Rightarrow> Inr (JArray js))
           | _ \<Rightarrow> Inl (TypeError InvalidScalar)))"
| "to_json_fields [] xs v = (case xs of [] \<Rightarrow> Inr [] | _ \<Rightarrow> Inl (TypeError InvalidScalar))"
| "to_json_fields (f # fs) xs v =
     (case xs of
        [] \<Rightarrow> Inl (TypeError InvalidScalar)
      | x # xs' \<Rightarrow>
          (case to_json_value (snd f) x v of
             Inl e \<Rightarrow> Inl e
           | Inr j \<Rightarrow>
               (case to_json_fields fs xs' v of Inl e \<Rightarrow> Inl e | Inr js \<Rightarrow> Inr (j # js))))"

text \<open>
  Modelled from the spec: \<^verbatim>\<open>from_json_value\<close> of the wrappers, which are not among the
  source files: the inverse of the rules above, with the base64 decoding and the
  reconstruction of the timestamp from its offset. A JSON value that no rule of the
  wrapper reads is a type-validation error; an integer outside the range of the
  wrapper's type does not convert.
\<close>

fun from_json_value :: "ZDType \<Rightarrow> json \<Rightarrow> ZarrFormat \<Rightarrow> error + scalar"
  and from_json_fields :: "(string \<times> ZDType) list \<Rightarrow> json list \<Rightarrow> ZarrFormat \<Rightarrow> error + scalar list"
  where
  "from_json_value w j v =
     (case w of
        Bool \<Rightarrow> (case j of JBool b \<Rightarrow> Inr (SBool b) | _ \<Rightarrow> Inl (TypeError InvalidJsonValue))
      | FixedLengthAscii n \<Rightarrow>
          (case j of
             JStr s \<Rightarrow>
               (case b64decode s of
                  None \<Rightarrow> Inl (ValueError InvalidJsonValue)
                | Some bs \<Rightarrow> Inr (SBytes bs))
           | _ \<Rightarrow> Inl (TypeError InvalidJsonValue))
      | FixedLengthBytes n \<Rightarrow>
          (case j of
             JStr s \<Rightarrow>
               (case b64decode s of
                  None \<Rightarrow> Inl (ValueError InvalidJsonValue)
                | Some bs \<Rightarrow> Inr (SVoid bs))
           | _ \<Rightarrow> Inl (TypeError InvalidJsonValue))
      | FixedLengthUnicode n \<Rightarrow>
          (case j of JStr s \<Rightarrow> Inr (SStr s) | _ \<Rightarrow> Inl (TypeError InvalidJsonValue))
      | VariableLengthString \<Rightarrow>
          (case j of JStr s \<Rightarrow> Inr (SStr s) | _ \<Rightarrow> Inl (TypeError InvalidJsonValue))
      | DateTime64 u \<Rightarrow>
          (case j of
             JInt t \<Rightarrow> Inr (SDateTime t)
           | JNull \<Rightarrow> Inr SNaT
           | _ \<Rightarrow> Inl (TypeError InvalidJsonValue))
      | Structured fs \<Rightarrow>
          (case j of
             JArray js \<Rightarrow>
               (case from_json_fields fs js v of Inl e \<Rightarrow> Inl e | Inr xs \<Rightarrow> Inr (SRecord xs))
           | _ \<Rightarrow> Inl (TypeError InvalidJsonValue))
      | _ \<Rightarrow>
          if is_float w then
            (case float_from_json j of
               None \<Rightarrow> Inl (TypeError InvalidJsonValue)
             | Some f \<Rightarrow> Inr (SFloat f))
          else if is_complex w then
            (case j of
               JArray [a, b] \<Rightarrow>
                 (case (float_from_json a, float_from_json b) of
                    (Some re, Some im) \<Rightarrow> Inr (SComplex re im)
                  | _ \<Rightarrow> Inl (TypeError InvalidJsonValue))
             | _ \<Rightarrow> Inl (TypeError InvalidJsonValue))
          else
            (case (int_range w, j) of
               (Some (lo, hi), JInt i) \<Rightarrow>
                 if lo \<le> i \<and> i \<le> hi then Inr (SInt i) else Inl (ValueError InvalidJsonValue)
             | _ \<Rightarrow> Inl (TypeError InvalidJsonValue)))"
| "from_json_fields [] js v = (case js of [] \<Rightarrow> Inr [] | _ \<Rightarrow> Inl (TypeError InvalidJsonValue))"
| "from_json_fields (f # fs) js v =
     (case js of
        [] \<Rightarrow> Inl (TypeError InvalidJsonValue)
      | j # js' \<Rightarrow>
          (case from_json_value (snd f) j v of
             Inl e \<Rightarrow> Inl e
           | Inr x \<Rightarrow>
               (case from_json_fields fs js' v of Inl e \<Rightarrow> Inl e | Inr xs \<Rightarrow> Inr (x # xs))))"

declare to_json_value.simps [simp del] from_json_value.simps [simp del] scalar_of.simps [simp del]

subsection \<open>The registry\<close>

text \<open>
  Modelled from the spec: the data type registry (\<^verbatim>\<open>zarr.core.dtype.registry\<close>) is not among
  the source files. It maps a name to a wrapper factory \<open>'f\<close>; the entries keep the order
  in which their names were first registered, as a Python dict does.
  \<open>register\<close> is an unconditional insert or override.
\<close>

type_synonym 'f registry = "(string \<times> 'f) list"

definition register :: "'f registry \<Rightarrow> string \<Rightarrow> 'f \<Rightarrow> 'f registry" where
  "register r name factory = AList.update name factory r"

text \<open>Modelled from the spec: \<open>get\<close> of the registry, which is not among the source files;
  it fails with a not-found error on a name that is absent.\<close>

definition get :: "'f registry \<Rightarrow> string \<Rightarrow> error + 'f" where
  "get r name =
     (case map_of r name of None \<Rightarrow> Inl (KeyError (NotRegistered name)) | Some f \<Rightarrow> Inr f)"

text \<open>
  Modelled from the spec: \<open>match_dtype\<close> of the registry, which is not among the source
  files. It scans the registered factories and returns the structural match;
  \<open>from_dtype f d\<close> is the wrapper that the factory \<open>f\<close> builds from the native type \<open>d\<close>, or
  \<open>None\<close> when \<open>d\<close> is not the native type that \<open>f\<close> handles. With no match it fails with a
  no-match error that names the native type (\<open>dtype_name d\<close> is its printed form); a second
  match is not looked for.
\<close>

fun match_dtype ::
  "('f \<Rightarrow> 'd \<Rightarrow> 'w option) \<Rightarrow> ('d \<Rightarrow> string) \<Rightarrow> 'f registry \<Rightarrow> 'd \<Rightarrow> error + 'w" where
  "match_dtype from_dtype dtype_name [] d = Inl (ValueError (NoMatchingWrapper (dtype_name d)))"
| "match_dtype from_dtype dtype_name ((name, factory) # rest) d =
     (case from_dtype factory d of
        Some w \<Rightarrow> Inr w
      | None \<Rightarrow> match_dtype from_dtype dtype_name rest d)"

text \<open>
  Two factories of the tests for evaluating the registry: \<^verbatim>\<open>Bool\<close> and its subclass
  \<^verbatim>\<open>NewBool\<close> both handle the native type \<^verbatim>\<open>bool\<close>, and each builds an instance of itself.
\<close>

definition example_from_dtype :: "string \<Rightarrow> string \<Rightarrow> string option" where
  "example_from_dtype factory d =
     (if (factory = ''Bool'' \<or> factory = ''NewBool'') \<and> d = ''bool'' then Some factory
      else None)"

section \<open>Chunk keys\<close>

lemma str_nat_nonempty: "str_nat n \<noteq> []"
  by (subst str_nat.simps) simp

lemma str_int_nonempty: "str_int i \<noteq> []"
  by (simp add: str_int_def str_nat_nonempty)

lemma join_empty_iff: "(\<forall>p \<in> set parts. p \<noteq> []) \<Longrightarrow> join sep parts = [] \<longleftrightarrow> parts = []"
  by (induction sep parts rule: join.induct) auto

text \<open>\<open>join\<close> puts the separator between the parts: before every part but the first.\<close>

lemma join_concat:
  "parts \<noteq> [] \<Longrightarrow> sep @ join sep parts = concat (map (\<lambda>p. sep @ p) parts)"
  by (induction sep parts rule: join.induct) simp_all

subsection \<open>\<open>str_int\<close> is the decimal form\<close>

lemma digit_cases:
  "d < 10 \<Longrightarrow>
   d = 0 \<or> d = 1 \<or> d = 2 \<or> d = 3 \<or> d = 4 \<or> d = 5 \<or> d = 6 \<or> d = 7 \<or> d = 8 \<or> d = (9::nat)"
  by arith

lemma digit_char_value: "d < 10 \<Longrightarrow> of_char (digit_char d) - 48 = d"
  using digit_cases [of d] by (auto simp: digit_char_def)

lemma digit_char_digit: "d < 10 \<Longrightarrow> digit_char d \<in> set ''0123456789''"
  using digit_cases [of d] by (auto simp: digit_char_def)

lemma digit_char_nonzero: "0 < d \<Longrightarrow> d < 10 \<Longrightarrow> digit_char d \<in> set ''123456789''"
  using digit_cases [of d] by (auto simp: digit_char_def)

lemma digit_char_of_value:
  "c \<in> set ''0123456789'' \<Longrightarrow> of_char c - 48 < (10::nat) \<and> digit_char (of_char c - 48) = c"
  by (auto simp: digit_char_def)

lemma decimal_value_snoc:
  "decimal_value (s @ [c]) = 10 * decimal_value s + (of_char c - 48)"
  by (simp add: decimal_value_def)

lemma decimal_value_str_nat: "decimal_value (str_nat n) = n"
proof (induction n rule: str_nat.induct)
  case (1 n)
  show ?case
  proof (cases "n < 10")
    case True
    then show ?thesis
      by (subst str_nat.simps) (simp add: decimal_value_def digit_char_value)
  next
    case False
    with 1 have "decimal_value (str_nat (n div 10)) = n div 10" by simp
    with False show ?thesis
      by (subst str_nat.simps) (simp add: decimal_value_snoc digit_char_value)
  qed
qed

lemma str_nat_digits: "list_all (\<lambda>c. c \<in> set ''0123456789'') (str_nat n)"
proof (induction n rule: str_nat.induct)
  case (1 n)
  show ?case
  proof (cases "n < 10")
    case True
    then show ?thesis
      using digit_char_digit [of n] by (subst str_nat.simps) simp
  next
    case False
    with 1 have "list_all (\<lambda>c. c \<in> set ''0123456789'') (str_nat (n div 10))" by simp
    with False show ?thesis
      using digit_char_digit [of "n mod 10"] by (subst str_nat.simps) simp
  qed
qed

lemma str_nat_zero: "str_nat 0 = ''0''"
  by (subst str_nat.simps) (simp add: digit_char_def)

lemma str_nat_leading: "0 < n \<Longrightarrow> hd (str_nat n) \<in> set ''123456789''"
proof (induction n rule: str_nat.induct)
  case (1 n)
  show ?case
  proof (cases "n < 10")
    case True
    with "1.prems" show ?thesis
      using digit_char_nonzero [of n] by (subst str_nat.simps) simp
  next
    case False
    then have "0 < n div 10" by simp
    with 1 False have "hd (str_nat (n div 10)) \<in> set ''123456789''" by simp
    with False show ?thesis
      by (subst str_nat.simps) (simp add: str_nat_nonempty)
  qed
qed

lemma str_nat_decimal_digits: "decimal_digits (str_nat n) n"
proof (cases "n = 0")
  case True
  then show ?thesis
    by (simp add: decimal_digits_def str_nat_zero decimal_value_def)
next
  case False
  then show ?thesis
    using str_nat_leading [of n] str_nat_nonempty [of n] str_nat_digits [of n]
      decimal_value_str_nat [of n]
    unfolding decimal_digits_def by blast
qed

lemma str_int_decimal_form: "decimal_form (str_int i) i"
  by (simp add: decimal_form_def str_int_def str_nat_decimal_digits)

lemma map_str_int_decimal: "list_all2 decimal_form (map str_int cs) cs"
  by (induction cs) (simp_all add: str_int_decimal_form)

text \<open>The decimal form of an integer is one string only, the one \<open>str_int\<close> returns.\<close>

lemma decimal_value_leading_pos:
  "ds \<noteq> [] \<Longrightarrow> hd ds \<in> set ''123456789'' \<Longrightarrow> 0 < decimal_value ds"
proof (induction ds rule: rev_induct)
  case Nil
  then show ?case by simp
next
  case (snoc c ds)
  show ?case
  proof (cases "ds = []")
    case True
    with snoc.prems show ?thesis by (auto simp: decimal_value_def)
  next
    case False
    with snoc have "0 < decimal_value ds" by simp
    then show ?thesis by (simp add: decimal_value_snoc)
  qed
qed

lemma decimal_digits_unique: "decimal_digits ds n \<Longrightarrow> ds = str_nat n"
proof (induction ds arbitrary: n rule: rev_induct)
  case Nil
  then show ?case by (simp add: decimal_digits_def)
next
  case (snoc c ds)
  from snoc.prems
  have all: "list_all (\<lambda>c. c \<in> set ''0123456789'') ds" "c \<in> set ''0123456789''"
    and val: "10 * decimal_value ds + (of_char c - 48) = n"
    and lead: "ds @ [c] = ''0'' \<or> hd (ds @ [c]) \<in> set ''123456789''"
    by (simp_all add: decimal_digits_def decimal_value_snoc)
  from all(2) have c: "of_char c - 48 < (10::nat)" "digit_char (of_char c - 48) = c"
    using digit_char_of_value by blast+
  show ?case
  proof (cases "ds = []")
    case True
    with val c have "n < 10" "digit_char n = c"
      by (auto simp: decimal_value_def)
    with True show ?thesis by (subst str_nat.simps) simp
  next
    case False
    with lead have hd: "hd ds \<in> set ''123456789''" by auto
    with False all have "decimal_digits ds (decimal_value ds)"
      by (simp add: decimal_digits_def)
    then have ds: "ds = str_nat (decimal_value ds)" by (rule snoc.IH)
    from False hd have "0 < decimal_value ds" by (rule decimal_value_leading_pos)
    with val c have "\<not> n < 10" "n div 10 = decimal_value ds" "n mod 10 = of_char c - 48"
      by auto
    with ds c show ?thesis by (subst str_nat.simps) simp
  qed
qed

lemma decimal_form_unique: "decimal_form s i \<longleftrightarrow> s = str_int i"
proof
  assume "decimal_form s i"
  then show "s = str_int i"
    by (auto simp: decimal_form_def str_int_def dest: decimal_digits_unique
        split: if_splits list.splits)
next
  assume "s = str_int i"
  then show "decimal_form s i" by (simp add: str_int_decimal_form)
qed

lemma decimal_parts_unique: "list_all2 decimal_form parts cs \<Longrightarrow> parts = map str_int cs"
  by (induction parts cs rule: list_all2_induct) (simp_all add: decimal_form_unique)

lemma decimal_form_examples:
  "decimal_form ''12'' 12" "decimal_form ''-305'' (- 305)" "decimal_form ''0'' 0"
  "\<not> decimal_form ''012'' 12" "\<not> decimal_form ''0'' 12" "\<not> decimal_form ''-0'' 0"
  "\<not> decimal_form ''305'' (- 305)" "\<not> decimal_form [] 0"
  by (simp_all add: decimal_form_def decimal_digits_def decimal_value_def)

lemma str_int_examples: "str_int 0 = ''0''" "str_int 12 = ''12''" "str_int (- 305) = ''-305''"
  by (simp_all add: str_int_def str_nat.simps digit_char_def)

lemma encode_chunk_key_example:
  "encode_chunk_key example_metadata [1, 2] = ''1.2''"
  "encode_chunk_key (example_metadata\<lparr>dimension_separator := Slash\<rparr>) [10, 0, 7] = ''10/0/7''"
  by (simp_all add: encode_chunk_key_def example_metadata_def str_int_def str_nat.simps
      digit_char_def)

text \<open>
  C8. For every array metadata document and every coordinate tuple,
  \<^verbatim>\<open>encode_chunk_key\<close> returns the decimal string forms of the coordinates joined by the
  configured dimension separator, which is \<^verbatim>\<open>"."\<close> or \<^verbatim>\<open>"/"\<close>: the key of a tuple that is
  not empty is made of one part for each coordinate, in order, each part is the decimal
  form of its coordinate (digits that denote the absolute value, no leading zero, a minus
  sign exactly when negative), and the separator stands before every part but the first.
  For the empty tuple the key is exactly \<^verbatim>\<open>"0"\<close>.
\<close>

theorem encode_chunk_key_joins:
  "encode_chunk_key m [] = ''0'' \<and>
   encode_chunk_key m (c # cs)
     = join (separator_str (dimension_separator m)) (map str_int (c # cs)) \<and>
   (separator_str (dimension_separator m) = ''.'' \<or>
    separator_str (dimension_separator m) = ''/'') \<and>
   (\<exists>parts. list_all2 decimal_form parts (c # cs) \<and>
      separator_str (dimension_separator m) @ encode_chunk_key m (c # cs)
        = concat (map (\<lambda>p. separator_str (dimension_separator m) @ p) parts))"
proof -
  let ?sep = "separator_str (dimension_separator m)"
  have empty: "encode_chunk_key m [] = ''0''"
    by (simp add: encode_chunk_key_def)
  have "join ?sep (map str_int (c # cs)) \<noteq> []"
    using join_empty_iff [of "map str_int (c # cs)" ?sep]
    by (simp add: str_int_nonempty)
  then have joined: "encode_chunk_key m (c # cs) = join ?sep (map str_int (c # cs))"
    by (simp add: encode_chunk_key_def Let_def)
  have sep: "?sep = ''.'' \<or> ?sep = ''/''"
    by (cases "dimension_separator m") simp_all
  have "?sep @ encode_chunk_key m (c # cs)
      = concat (map (\<lambda>p. ?sep @ p) (map str_int (c # cs)))"
    unfolding joined by (rule join_concat) simp
  with map_str_int_decimal [of "c # cs"]
  have parts: "\<exists>parts. list_all2 decimal_form parts (c # cs) \<and>
      ?sep @ encode_chunk_key m (c # cs) = concat (map (\<lambda>p. ?sep @ p) parts)"
    by blast
  from empty joined sep parts show ?thesis by blast
qed

theorem encode_chunk_key_joins_witness:
  "encode_chunk_key example_metadata [] = ''0'' \<and>
   encode_chunk_key example_metadata [10, - 3, 0] = ''10.-3.0''"
proof -
  have sep: "separator_str (dimension_separator example_metadata) = ''.''"
    by (simp add: example_metadata_def)
  from encode_chunk_key_joins [of example_metadata 10 "[- 3, 0]"]
  obtain parts where empty: "encode_chunk_key example_metadata [] = ''0''"
    and forms: "list_all2 decimal_form parts [10, - 3, 0]"
    and key: "''.'' @ encode_chunk_key example_metadata [10, - 3, 0]
        = concat (map (\<lambda>p. ''.'' @ p) parts)"
    unfolding sep by blast
  from forms have "parts = map str_int [10, - 3, 0]"
    by (rule decimal_parts_unique)
  then have "parts = [''10'', ''-3'', ''0'']"
    by (simp add: str_int_def str_nat.simps digit_char_def)
  with key have "encode_chunk_key example_metadata [10, - 3, 0] = ''10.-3.0''"
    by simp
  with empty show ?thesis by simp
qed

text \<open>
  C10. For every document, array configuration, buffer prototype and any two chunk
  coordinate tuples, \<^verbatim>\<open>get_chunk_spec\<close> returns the same specification: it does not depend
  on the coordinates.
\<close>

theorem get_chunk_spec_ignores_coords:
  "get_chunk_spec m c1 cfg p = get_chunk_spec m c2 cfg p"
  by (simp add: get_chunk_spec_def)

section \<open>The constructor and the documents it builds\<close>

lemmas parser_defs = parse_shapelike_def parse_compressor_def parse_indexing_order_def
  parse_separator_def parse_filters_def parse_fill_value_def parse_metadata_def
  parse_attributes_def parse_zarr_format_def

lemmas example_defs = example_args_def example_externals_def example_metadata_def
  example_to_dtype_def example_document_def

lemma example_init: "init example_externals example_args = ([], Inr example_metadata)"
  by (simp add: init_def example_defs parser_defs)

lemma example_constructed: "constructed example_externals example_metadata"
  using example_init by (rule constructed.by_init)

lemma init_unequal_fails:
  "length (arg_shape args) \<noteq> length (arg_chunks args) \<Longrightarrow> isl (snd (init ext args))"
  by (auto simp: init_def parse_metadata_def parse_shapelike_def Let_def
      split: sum.splits dtype_arg.splits if_splits)

lemma init_shape_mismatch:
  "fields_parse ext args \<Longrightarrow> length (arg_shape args) \<noteq> length (arg_chunks args) \<Longrightarrow>
   init ext args
     = ([], Inl (ValueError (ShapeMismatch (length (arg_chunks args)) (length (arg_shape args)))))"
  by (auto simp: init_def fields_parse_def parse_metadata_def parse_shapelike_def Let_def
      split: sum.splits dtype_arg.splits if_splits)

text \<open>What the constructor establishes of a document it returns.\<close>

lemma init_well_formed:
  "init ext args = (ws, Inr m) \<Longrightarrow>
   \<not> (\<exists>v \<in> set (shape m). v < 0) \<and> \<not> (\<exists>v \<in> set (chunks m). v < 0) \<and>
   filters m \<noteq> Some [] \<and> zarr_format m = 2 \<and> length (shape m) = length (chunks m)"
  by (auto simp: init_def parse_metadata_def parse_shapelike_def parse_filters_def Let_def
      split: sum.splits dtype_arg.splits if_splits filters_arg.splits)

lemma from_dict_calls_init:
  assumes "from_dict ext data = (ws, Inr m)"
  shows "\<exists>args ws'. init ext args = (ws', Inr m)"
  using assms
  by (auto simp: from_dict_def
      split: sum.splits option.splits prod.splits filters_arg.splits if_splits)

lemma constructed_well_formed:
  "constructed ext m \<Longrightarrow>
   \<not> (\<exists>v \<in> set (shape m). v < 0) \<and> \<not> (\<exists>v \<in> set (chunks m). v < 0) \<and>
   filters m \<noteq> Some [] \<and> zarr_format m = 2 \<and> length (shape m) = length (chunks m)"
proof (induction rule: constructed.induct)
  case (by_init args ws m)
  then show ?case by (rule init_well_formed)
next
  case (by_from_dict data ws m)
  then obtain args ws' where "init ext args = (ws', Inr m)"
    using from_dict_calls_init by blast
  then show ?case by (rule init_well_formed)
next
  case (by_update_shape m new_shape ws m')
  from by_update_shape(2) show ?case
    unfolding update_shape_def by (rule init_well_formed)
next
  case (by_update_attributes m new_attributes ws m')
  from by_update_attributes(2) show ?case
    unfolding update_attributes_def by (rule init_well_formed)
qed

text \<open>
  C2, as the code has it. A construction with shape and chunk shape of unequal length
  always fails; the error is the shape-mismatch error when every parser of the
  constructor accepts its argument (the check of the lengths comes last, so the error
  of a parser that fails is raised first); and every document that the constructor,
  \<^verbatim>\<open>from_dict\<close>, \<^verbatim>\<open>update_shape\<close> or \<^verbatim>\<open>update_attributes\<close> returns has shape and chunk
  shape of the same length.
\<close>

theorem shape_chunks_invariant:
  "(length (arg_shape args) \<noteq> length (arg_chunks args) \<longrightarrow> isl (snd (init ext args))) \<and>
   (length (arg_shape args) \<noteq> length (arg_chunks args) \<and> fields_parse ext args \<longrightarrow>
      init ext args
        = ([], Inl (ValueError
                 (ShapeMismatch (length (arg_chunks args)) (length (arg_shape args)))))) \<and>
   (constructed ext m \<longrightarrow> length (shape m) = length (chunks m))"
  using init_unequal_fails init_shape_mismatch constructed_well_formed by blast

theorem shape_chunks_invariant_witness:
  "isl (snd (init example_externals (example_args\<lparr>arg_chunks := [5]\<rparr>))) \<and>
   init example_externals (example_args\<lparr>arg_chunks := [5]\<rparr>)
     = ([], Inl (ValueError (ShapeMismatch 1 2))) \<and>
   length (shape example_metadata) = length (chunks example_metadata)"
proof -
  have len: "length (arg_shape (example_args\<lparr>arg_chunks := [5]\<rparr>))
      \<noteq> length (arg_chunks (example_args\<lparr>arg_chunks := [5]\<rparr>))"
    by (simp add: example_defs)
  have fp: "fields_parse example_externals (example_args\<lparr>arg_chunks := [5]\<rparr>)"
    by (simp add: fields_parse_def example_defs parser_defs)
  from shape_chunks_invariant
      [of "example_args\<lparr>arg_chunks := [5]\<rparr>" example_externals example_metadata]
    len fp example_constructed
  show ?thesis by (simp add: example_defs)
qed

text \<open>
  C2 as stated fails: with a shape of length 2 and a chunk shape of length 1, the
  constructor raises \<^verbatim>\<open>TypeError\<close> when the dtype is no type wrapper, and the error of
  \<^verbatim>\<open>parse_indexing_order\<close> when the order is \<^verbatim>\<open>"X"\<close>; neither is the shape-mismatch error.
\<close>

theorem unequal_lengths_other_error:
  "init example_externals (example_args\<lparr>arg_chunks := [5], arg_dtype := NotAWrapper\<rparr>)
     = ([], Inl (TypeError NoMessage)) \<and>
   init example_externals (example_args\<lparr>arg_chunks := [5], arg_order := ''X''\<rparr>)
     = ([], Inl (ValueError (InvalidOrder ''X'')))"
  by (simp add: init_def example_defs parser_defs)

section \<open>Fill values\<close>

lemma eq_zero_not_void: "eq_zero fv \<Longrightarrow> \<not> is_np_void fv"
  by (cases fv) simp_all

text \<open>
  C5, as the code has it. \<^verbatim>\<open>parse_fill_value\<close> dispatches in this order: an absent fill
  value stays absent, and with an object dtype every fill value is returned unchanged;
  otherwise a value equal to zero becomes the zero scalar of the dtype; otherwise, for a
  unicode dtype, a string is kept and every other value fails with a fill-value error;
  otherwise raw bytes for an opaque dtype are reinterpreted structurally and every other
  value is cast into the dtype, and either failing raises a fill-value error.
\<close>

theorem parse_fill_value_dispatch:
  "parse_fill_value ext PyNone dt = Inr PyNone \<and>
   (hasobject dt \<longrightarrow> parse_fill_value ext fv dt = Inr fv) \<and>
   (fv \<noteq> PyNone \<and> \<not> hasobject dt \<and> eq_zero fv \<longrightarrow>
      parse_fill_value ext fv dt = Inr (np_zeros ext dt)) \<and>
   (fv \<noteq> PyNone \<and> \<not> hasobject dt \<and> \<not> eq_zero fv \<and> kind dt = CHR ''U'' \<longrightarrow>
      parse_fill_value ext fv dt
        = (if is_str fv then Inr fv else Inl (ValueError (FillValueNotUnicode fv)))) \<and>
   (fv \<noteq> PyNone \<and> \<not> hasobject dt \<and> \<not> eq_zero fv \<and> kind dt = CHR ''V'' \<and> is_bytes fv \<longrightarrow>
      parse_fill_value ext fv dt
        = (case np_array_view ext fv dt of
             None \<Rightarrow> Inl (ValueError (FillValueInvalid fv))
           | Some v \<Rightarrow> Inr v)) \<and>
   (fv \<noteq> PyNone \<and> \<not> hasobject dt \<and> \<not> eq_zero fv \<and> kind dt \<noteq> CHR ''U'' \<and>
    \<not> (kind dt = CHR ''V'' \<and> is_bytes fv) \<longrightarrow>
      parse_fill_value ext fv dt
        = (case np_array ext fv dt of
             None \<Rightarrow> Inl (ValueError (FillValueInvalid fv))
           | Some v \<Rightarrow> Inr v))"
  using eq_zero_not_void [of fv] by (auto simp: parse_fill_value_def)

theorem parse_fill_value_dispatch_witness:
  "parse_fill_value example_externals PyNone (example_to_dtype ''<i4'') = Inr PyNone \<and>
   parse_fill_value example_externals (PyInt 7) (example_to_dtype ''|O'') = Inr (PyInt 7) \<and>
   parse_fill_value example_externals (PyFloat (Fin 0)) (example_to_dtype ''<i4'')
     = Inr (PyInt 0) \<and>
   parse_fill_value example_externals (PyInt 5) (example_to_dtype ''<U4'')
     = Inl (ValueError (FillValueNotUnicode (PyInt 5))) \<and>
   parse_fill_value example_externals (PyStr ''ab'') (example_to_dtype ''<U4'')
     = Inr (PyStr ''ab'') \<and>
   parse_fill_value example_externals (PyBytes [1, 2]) (example_to_dtype ''|V2'')
     = Inr (NpVoid [1, 2]) \<and>
   parse_fill_value example_externals (PyStr ''x'') (example_to_dtype ''<i4'')
     = Inl (ValueError (FillValueInvalid (PyStr ''x'')))"
  using parse_fill_value_dispatch [of example_externals "example_to_dtype ''<i4''" PyNone]
    parse_fill_value_dispatch [of example_externals "example_to_dtype ''|O''" "PyInt 7"]
    parse_fill_value_dispatch [of example_externals "example_to_dtype ''<i4''" "PyFloat (Fin 0)"]
    parse_fill_value_dispatch [of example_externals "example_to_dtype ''<U4''" "PyInt 5"]
    parse_fill_value_dispatch [of example_externals "example_to_dtype ''<U4''" "PyStr ''ab''"]
    parse_fill_value_dispatch [of example_externals "example_to_dtype ''|V2''" "PyBytes [1, 2]"]
    parse_fill_value_dispatch [of example_externals "example_to_dtype ''<i4''" "PyStr ''x''"]
  by (simp add: example_defs)

text \<open>
  C5 as stated fails: the integer \<^verbatim>\<open>0\<close> is no string, and for a unicode dtype it is
  accepted and becomes the zero scalar of the dtype (the empty string); with an object
  dtype the fill value \<^verbatim>\<open>7\<close> does not become absent.
\<close>

theorem zero_fill_for_unicode_accepted:
  "parse_fill_value example_externals (PyInt 0) (example_to_dtype ''<U4'') = Inr (PyStr []) \<and>
   parse_fill_value example_externals (PyInt 7) (example_to_dtype ''|O'') = Inr (PyInt 7)"
  by (simp add: parse_fill_value_def example_defs)

section \<open>Empty lists of filters\<close>

lemma init_empty_filters:
  "arg_filters args = FiltersIter [] \<Longrightarrow> init ext args = (ws, Inr m) \<Longrightarrow>
   ws = [] \<and> filters m = None"
  by (auto simp: init_def parse_filters_def parse_metadata_def Let_def
      split: sum.splits dtype_arg.splits if_splits)

lemma from_dict_empty_filters:
  "doc_filters data = Some (FiltersIter []) \<Longrightarrow> from_dict ext data = (ws, Inr m) \<Longrightarrow>
   ws = [UserWarning empty_filters_msg] \<and> filters m = None"
  by (auto simp: from_dict_def init_def parse_filters_def parse_metadata_def Let_def
      split: sum.splits option.splits prod.splits if_splits dtype_arg.splits)

lemma from_dict_empty_same_result:
  "snd (from_dict ext (data\<lparr>doc_filters := Some (FiltersIter [])\<rparr>))
     = snd (from_dict ext (data\<lparr>doc_filters := Some FiltersNone\<rparr>))"
  by (auto simp: from_dict_def missing_arguments_def
      split: sum.splits option.splits prod.splits if_splits)

lemma example_init_empty_filters:
  "init example_externals (example_args\<lparr>arg_filters := FiltersIter []\<rparr>)
     = ([], Inr example_metadata)"
  by (simp add: init_def example_defs parser_defs)

lemma example_from_dict:
  "from_dict example_externals example_document
     = ([UserWarning empty_filters_msg], Inr example_metadata)"
  by (simp add: from_dict_def init_def example_defs parser_defs)

text \<open>
  C6, as the code has it. An empty list of filters is never an error and is never
  stored: \<^verbatim>\<open>parse_filters\<close> turns it into \<^verbatim>\<open>None\<close>. A construction that succeeds on it
  stores \<^verbatim>\<open>filters == None\<close> and emits no warning; \<^verbatim>\<open>from_dict\<close> on a document whose
  filters are an empty list, when it succeeds, stores \<^verbatim>\<open>filters == None\<close> and has emitted
  exactly one warning, and its result is the one for the document with \<^verbatim>\<open>null\<close> filters.
\<close>

theorem empty_filters_normalized:
  "parse_filters ext (FiltersIter []) = Inr None \<and>
   (arg_filters args = FiltersIter [] \<and> init ext args = (ws, Inr m) \<longrightarrow>
      ws = [] \<and> filters m = None) \<and>
   (doc_filters data = Some (FiltersIter []) \<and> from_dict ext data = (ws', Inr m') \<longrightarrow>
      ws' = [UserWarning empty_filters_msg] \<and> filters m' = None) \<and>
   snd (from_dict ext (data\<lparr>doc_filters := Some (FiltersIter [])\<rparr>))
     = snd (from_dict ext (data\<lparr>doc_filters := Some FiltersNone\<rparr>))"
  using init_empty_filters [of args ext ws m] from_dict_empty_filters [of data ext ws' m']
    from_dict_empty_same_result [of ext data]
  by (simp add: parse_filters_def)

theorem empty_filters_normalized_witness:
  "parse_filters example_externals (FiltersIter []) = Inr None \<and>
   filters example_metadata = None \<and>
   fst (from_dict example_externals example_document) = [UserWarning empty_filters_msg]"
  using empty_filters_normalized
      [of example_externals "example_args\<lparr>arg_filters := FiltersIter []\<rparr>" "[]"
        example_metadata example_document "[UserWarning empty_filters_msg]" example_metadata]
    example_init_empty_filters example_from_dict
  by (simp add: example_defs)

text \<open>
  C6 as stated fails: the constructor, given an empty list of filters beside valid
  arguments, stores \<^verbatim>\<open>filters == None\<close> and emits no warning.
\<close>

theorem constructor_empty_filters_no_warning:
  "init example_externals (example_args\<lparr>arg_filters := FiltersIter []\<rparr>)
     = ([], Inr (example_metadata\<lparr>filters := None\<rparr>))"
  by (simp add: init_def example_defs parser_defs)

section \<open>Serialising the compressor\<close>

lemma to_dict_checksum_missing:
  "compressor m = Some c \<Longrightarrow> map_of (get_config ext c) ''id'' = Some (JStr ''zstd'') \<Longrightarrow>
   map_of (get_config ext c) ''checksum'' = None \<Longrightarrow>
   to_dict ext m = Inl (KeyError (MissingKey ''checksum''))"
  by (simp add: to_dict_def)

lemma to_dict_checksum_dropped:
  "compressor m = Some c \<Longrightarrow> map_of (get_config ext c) ''id'' = Some (JStr ''zstd'') \<Longrightarrow>
   map_of (get_config ext c) ''checksum'' = Some v \<Longrightarrow> \<not> truthy v \<Longrightarrow>
   to_dict ext m = Inr d \<Longrightarrow>
   map_of d ''compressor'' = Some (JObject (AList.delete ''checksum'' (get_config ext c)))"
  by (auto simp: to_dict_def Let_def split: sum.splits if_splits)

lemma to_dict_config_kept:
  "compressor m = Some c \<Longrightarrow> map_of (get_config ext c) ''id'' = Some ident \<Longrightarrow>
   ident \<noteq> JStr ''zstd'' \<or> (\<exists>v. map_of (get_config ext c) ''checksum'' = Some v \<and> truthy v) \<Longrightarrow>
   to_dict ext m = Inr d \<Longrightarrow>
   map_of d ''compressor'' = Some (JObject (get_config ext c))"
  by (auto simp: to_dict_def Let_def split: sum.splits if_splits)

lemma to_dict_example:
  "to_dict example_externals example_metadata
     = Inr [(''shape'', JArray [JInt 10, JInt 10]), (''chunks'', JArray [JInt 5, JInt 5]),
            (''dtype'', JStr ''<i4''), (''fill_value'', JInt 0), (''order'', JStr ''C''),
            (''filters'', JNull), (''dimension_separator'', JStr ''.''),
            (''compressor'', JNull), (''attributes'', JObject []), (''zarr_format'', JInt 2)]"
  by (simp add: to_dict_def example_externals_def example_metadata_def)

text \<open>
  C7. A compressor whose configuration has the id \<^verbatim>\<open>"zstd"\<close> and no \<^verbatim>\<open>"checksum"\<close> key:
  the claim has \<^verbatim>\<open>to_dict\<close> emit the configuration without that key, and the code raises
  \<^verbatim>\<open>KeyError\<close>, since \<^verbatim>\<open>codec_config.pop("checksum")\<close> has no default.
\<close>

theorem to_dict_zstd_without_checksum_raises:
  "to_dict example_externals
     (example_metadata\<lparr>compressor := Some [(''id'', JStr ''zstd''), (''level'', JInt 0)]\<rparr>)
     = Inl (KeyError (MissingKey ''checksum''))"
  by (simp add: to_dict_def example_defs)

section \<open>Functional updates\<close>

lemma parse_filters_loop_codecs:
  "parse_filters_loop ext idx (map ItemCodec fs) out = Inr (out @ fs)"
  by (induction fs arbitrary: idx out) simp_all

lemma replace_order: "parse_indexing_order (order_str (order m)) = Inr (order m)"
  by (cases "order m") (simp_all add: parse_indexing_order_def)

lemma replace_separator:
  "parse_separator (separator_str (dimension_separator m)) = Inr (dimension_separator m)"
  by (cases "dimension_separator m") (simp_all add: parse_separator_def)

lemma replace_compressor:
  "parse_compressor ext
     (case compressor m of None \<Rightarrow> CompressorNone | Some c \<Rightarrow> CompressorCodec c)
     = Inr (compressor m)"
  by (cases "compressor m") (simp_all add: parse_compressor_def)

lemma replace_filters:
  "filters m \<noteq> Some [] \<Longrightarrow>
   parse_filters ext
     (case filters m of None \<Rightarrow> FiltersNone | Some fs \<Rightarrow> FiltersIter (map ItemCodec fs))
     = Inr (filters m)"
  by (cases "filters m") (simp_all add: parse_filters_def parse_filters_loop_codecs)

lemmas replace_parsers = replace_order replace_separator replace_compressor replace_filters

lemma update_shape_result:
  assumes "\<not> (\<exists>v \<in> set (chunks m). v < 0)" "filters m \<noteq> Some []" "zarr_format m = 2"
    "fill_value_stable ext m"
  shows "update_shape ext m s =
     ([], if \<exists>v \<in> set s. v < 0 then Inl (ValueError NegativeShape)
          else if length (chunks m) \<noteq> length s
            then Inl (ValueError (ShapeMismatch (length (chunks m)) (length s)))
          else Inr (m\<lparr>shape := s\<rparr>))"
proof -
  have ch: "parse_shapelike (chunks m) = Inr (chunks m)"
    using assms(1) by (auto simp: parse_shapelike_def)
  have fv: "parse_fill_value ext (fill_value m) (to_dtype ext (dtype m)) = Inr (fill_value m)"
    using assms(4) by (simp add: fill_value_stable_def)
  have sh: "parse_shapelike s
      = (if \<exists>v \<in> set s. v < 0 then Inl (ValueError NegativeShape) else Inr s)"
    by (simp add: parse_shapelike_def)
  show ?thesis
    using assms(2,3)
    by (simp add: update_shape_def init_def replace_args_def sh ch fv replace_parsers
        parse_metadata_def parse_attributes_def Let_def)
qed

lemma update_attributes_result:
  assumes "\<not> (\<exists>v \<in> set (shape m). v < 0)" "\<not> (\<exists>v \<in> set (chunks m). v < 0)"
    "filters m \<noteq> Some []" "zarr_format m = 2"
    "length (shape m) = length (chunks m)" "fill_value_stable ext m"
  shows "update_attributes ext m a = ([], Inr (m\<lparr>attributes := a\<rparr>))"
proof -
  have sh: "parse_shapelike (shape m) = Inr (shape m)"
    using assms(1) by (auto simp: parse_shapelike_def)
  have ch: "parse_shapelike (chunks m) = Inr (chunks m)"
    using assms(2) by (auto simp: parse_shapelike_def)
  have fv: "parse_fill_value ext (fill_value m) (to_dtype ext (dtype m)) = Inr (fill_value m)"
    using assms(6) by (simp add: fill_value_stable_def)
  show ?thesis
    using assms(3,4,5)
    by (simp add: update_attributes_def init_def replace_args_def sh ch fv replace_parsers
        parse_metadata_def parse_attributes_def Let_def)
qed

lemma update_shape_unequal_fails:
  "length s \<noteq> length (chunks m) \<Longrightarrow> isl (snd (update_shape ext m s))"
  by (auto simp: update_shape_def init_def replace_args_def parse_metadata_def
      parse_shapelike_def Let_def split: sum.splits if_splits)

text \<open>
  C9, as the code has it. \<^verbatim>\<open>update_shape\<close> and \<^verbatim>\<open>update_attributes\<close> return what the
  primary constructor returns on the fields of the document with the shape (the
  attributes) replaced, so its validation runs again, and a new shape whose length
  differs from that of the chunk shape is always refused. On a document that exists,
  whose stored fill value parses to itself, \<^verbatim>\<open>update_shape\<close> fails with the error of
  \<^verbatim>\<open>parse_shapelike\<close> when the new shape has a negative entry, otherwise with the
  shape-mismatch error when its length differs from that of the chunk shape, and
  otherwise returns the copy in which the shape is replaced and every other field is
  unchanged; \<^verbatim>\<open>update_attributes\<close> returns the copy in which the attributes are replaced
  and every other field is unchanged.
\<close>

theorem update_reruns_constructor:
  "update_shape ext m s = init ext ((replace_args m)\<lparr>arg_shape := s\<rparr>) \<and>
   update_attributes ext m a = init ext ((replace_args m)\<lparr>arg_attributes := Some a\<rparr>) \<and>
   (length s \<noteq> length (chunks m) \<longrightarrow> isl (snd (update_shape ext m s))) \<and>
   (constructed ext m \<and> fill_value_stable ext m \<longrightarrow>
      update_shape ext m s =
        ([], if \<exists>v \<in> set s. v < 0 then Inl (ValueError NegativeShape)
             else if length (chunks m) \<noteq> length s
               then Inl (ValueError (ShapeMismatch (length (chunks m)) (length s)))
             else Inr (m\<lparr>shape := s\<rparr>))) \<and>
   (constructed ext m \<and> fill_value_stable ext m \<longrightarrow>
      update_attributes ext m a = ([], Inr (m\<lparr>attributes := a\<rparr>)))"
proof -
  have shape: "update_shape ext m s =
      ([], if \<exists>v \<in> set s. v < 0 then Inl (ValueError NegativeShape)
           else if length (chunks m) \<noteq> length s
             then Inl (ValueError (ShapeMismatch (length (chunks m)) (length s)))
           else Inr (m\<lparr>shape := s\<rparr>))"
    if "constructed ext m" "fill_value_stable ext m"
    using constructed_well_formed [OF that(1)] that(2)
    by (intro update_shape_result) simp_all
  have attrs: "update_attributes ext m a = ([], Inr (m\<lparr>attributes := a\<rparr>))"
    if "constructed ext m" "fill_value_stable ext m"
    using constructed_well_formed [OF that(1)] that(2)
    by (intro update_attributes_result) simp_all
  have defs: "update_shape ext m s = init ext ((replace_args m)\<lparr>arg_shape := s\<rparr>)"
    "update_attributes ext m a = init ext ((replace_args m)\<lparr>arg_attributes := Some a\<rparr>)"
    by (simp_all add: update_shape_def update_attributes_def)
  from defs shape attrs update_shape_unequal_fails [of s m ext]
  show ?thesis by blast
qed

theorem update_reruns_constructor_witness:
  "isl (snd (update_shape example_externals example_metadata [1, 2, 3])) \<and>
   update_shape example_externals example_metadata [1, 2, 3]
     = ([], Inl (ValueError (ShapeMismatch 2 3))) \<and>
   update_shape example_externals example_metadata [- 1, 2, 3]
     = ([], Inl (ValueError NegativeShape)) \<and>
   update_shape example_externals example_metadata [4, 6]
     = ([], Inr (example_metadata\<lparr>shape := [4, 6]\<rparr>)) \<and>
   update_attributes example_externals example_metadata [(''units'', JStr ''m'')]
     = ([], Inr (example_metadata\<lparr>attributes := [(''units'', JStr ''m'')]\<rparr>))"
proof -
  have st: "fill_value_stable example_externals example_metadata"
    by (simp add: fill_value_stable_def example_defs parser_defs)
  have len: "length [1, 2, 3 :: int] \<noteq> length (chunks example_metadata)"
    "length (chunks example_metadata) = 2"
    by (simp_all add: example_defs)
  note inst = update_reruns_constructor
      [of example_externals example_metadata _ "[(''units'', JStr ''m'')]",
        THEN conjunct2, THEN conjunct2]
  from inst [of "[1, 2, 3]"] inst [of "[- 1, 2, 3]"] inst [of "[4, 6]"]
    len example_constructed st
  show ?thesis by simp
qed

text \<open>
  C9 as stated fails: on a document with two dimensions, \<^verbatim>\<open>update_shape\<close> with the shape
  \<^verbatim>\<open>(1, 2, 3)\<close> returns no copy; the validation of the constructor runs and raises the
  shape-mismatch error.
\<close>

theorem update_shape_revalidates:
  "update_shape example_externals example_metadata [1, 2, 3]
     = ([], Inl (ValueError (ShapeMismatch 2 3)))"
  by (simp add: update_shape_def replace_args_def init_def example_defs parser_defs)

section \<open>Round trip of the JSON form of a scalar\<close>

lemma index_of_nth: "distinct xs \<Longrightarrow> i < length xs \<Longrightarrow> index_of (xs ! i) xs = Some i"
proof (induction xs arbitrary: i)
  case Nil
  then show ?case by simp
next
  case (Cons a xs)
  show ?case
  proof (cases i)
    case 0
    then show ?thesis by simp
  next
    case (Suc k)
    with Cons.prems have "xs ! k \<in> set xs" "a \<notin> set xs" by auto
    then have "xs ! k \<noteq> a" by auto
    with Suc Cons show ?thesis by simp
  qed
qed

lemma b64_alphabet_distinct: "distinct b64_alphabet"
  by (simp add: b64_alphabet_def)

lemma b64_alphabet_length: "length b64_alphabet = 64"
  by (simp add: b64_alphabet_def)

lemma b64_value_char: "n < 64 \<Longrightarrow> b64_value (b64_char n) = Some n"
  by (simp add: b64_value_def b64_char_def index_of_nth b64_alphabet_distinct b64_alphabet_length)

lemma b64_pad_not_in_alphabet: "CHR ''='' \<notin> set b64_alphabet"
  by (simp add: b64_alphabet_def)

lemma b64_char_not_pad: "n < 64 \<Longrightarrow> b64_char n \<noteq> CHR ''=''"
  using b64_pad_not_in_alphabet nth_mem [of n b64_alphabet]
  by (metis b64_char_def b64_alphabet_length)

lemma unat_byte_less: "unat (a :: byte) < 256"
  using unsigned_less [of a, where ?'a = nat] by simp

lemma sextet_high: "n div 262144 * 64 + n div 4096 mod 64 = (n :: nat) div 4096"
proof -
  have "n div 262144 = n div 4096 div 64"
    by (simp add: div_mult2_eq [symmetric])
  then show ?thesis by simp
qed

lemma sextet_mid: "n div 4096 * 64 + n div 64 mod 64 = (n :: nat) div 64"
proof -
  have "n div 4096 = n div 64 div 64"
    by (simp add: div_mult2_eq [symmetric])
  then show ?thesis by simp
qed

lemma sextet_low: "n div 64 * 64 + n mod 64 = (n :: nat)"
  by simp

lemma sextet_top_less: "(n :: nat) < 16777216 \<Longrightarrow> n div 262144 < 64"
  by (simp add: less_mult_imp_div_less)

lemma bytes_of_24:
  fixes a b c :: nat
  assumes "b < 256" "c < 256"
  shows "(a * 65536 + b * 256 + c) div 65536 = a"
    and "(a * 65536 + b * 256 + c) div 256 mod 256 = b"
    and "(a * 65536 + b * 256 + c) mod 256 = c"
proof -
  have r: "b * 256 + c < 65536" using assms by simp
  have "(a * 65536 + (b * 256 + c)) div 65536 = a"
    using r by simp
  then show "(a * 65536 + b * 256 + c) div 65536 = a"
    by (simp add: add.assoc)
  have "(a * 65536 + b * 256 + c) div 256 = a * 256 + b"
    using assms(2) by simp
  then show "(a * 65536 + b * 256 + c) div 256 mod 256 = b"
    using assms(1) by simp
  have e: "a * 65536 + b * 256 + c = (a * 256 + b) * 256 + c"
    by simp
  have "(a * 65536 + b * 256 + c) mod 256 = ((a * 256 + b) * 256 + c) mod 256"
    by (simp only: e)
  also have "\<dots> = c mod 256"
    by (rule mod_mult_self3)
  also have "\<dots> = c"
    using assms(2) by (rule mod_less)
  finally show "(a * 65536 + b * 256 + c) mod 256 = c" .
qed

text \<open>Decoding one group of four characters that encode the 24 bits of \<open>n\<close>.\<close>

lemma b64decode_group:
  assumes "n < 16777216"
  shows "b64decode (b64_char (n div 262144) # b64_char (n div 4096 mod 64)
            # b64_char (n div 64 mod 64) # b64_char (n mod 64) # cs)
         = map_option (\<lambda>bs. [of_nat (n div 65536), of_nat (n div 256 mod 256), of_nat (n mod 256)] @ bs)
             (b64decode cs)"
  using assms
  by (cases "b64decode cs")
    (simp_all add: b64_value_char b64_char_not_pad sextet_top_less sextet_high sextet_mid
      sextet_low)

lemma b64decode_pad1:
  assumes "n < 16777216"
  shows "b64decode [b64_char (n div 262144), b64_char (n div 4096 mod 64),
            b64_char (n div 64 mod 64), CHR ''='']
         = Some [of_nat (n div 64 div 1024), of_nat (n div 64 div 4 mod 256)]"
  using assms
  by (simp add: Let_def b64_value_char b64_char_not_pad sextet_top_less sextet_high sextet_mid)

lemma b64decode_pad2:
  assumes "n < 16777216"
  shows "b64decode [b64_char (n div 262144), b64_char (n div 4096 mod 64), CHR ''='', CHR ''='']
         = Some [of_nat (n div 4096 div 16)]"
  using assms
  by (simp add: b64_value_char b64_char_not_pad sextet_top_less sextet_high)

lemma b64_roundtrip: "b64decode (b64encode bs) = Some bs"
proof (induction bs rule: b64encode.induct)
  case 1
  show ?case by simp
next
  case (2 a)
  have n: "unat a * 65536 < 16777216"
    using unat_byte_less [of a] by simp
  have "unat a * 65536 div 4096 div 16 = unat a"
    by (simp add: div_mult2_eq [symmetric])
  with b64decode_pad2 [OF n] show ?case by (simp add: Let_def)
next
  case (3 a b)
  define n where "n = unat a * 65536 + unat b * 256"
  have n: "n < 16777216"
    using unat_byte_less [of a] unat_byte_less [of b] by (simp add: n_def)
  have "n div 64 div 1024 = n div 65536" "n div 64 div 4 = n div 256"
    by (simp_all add: div_mult2_eq [symmetric])
  moreover have "n div 65536 = unat a" "n div 256 mod 256 = unat b"
    using bytes_of_24 [of "unat b" 0 "unat a"] unat_byte_less [of b] by (simp_all add: n_def)
  ultimately show ?case
    using b64decode_pad1 [OF n] by (simp add: Let_def n_def [symmetric])
next
  case (4 a b c rest)
  define n where "n = unat a * 65536 + unat b * 256 + unat c"
  have bytes: "n div 65536 = unat a" "n div 256 mod 256 = unat b" "n mod 256 = unat c"
    using bytes_of_24 [of "unat b" "unat c" "unat a"] unat_byte_less [of b] unat_byte_less [of c]
    by (simp_all add: n_def)
  have n: "n < 16777216"
    using unat_byte_less [of a] unat_byte_less [of b] unat_byte_less [of c] by (simp add: n_def)
  show ?case
    using b64decode_group [OF n, of "b64encode rest"] 4 bytes
    by (simp add: Let_def n_def [symmetric])
qed

text \<open>The four bytes of \<^verbatim>\<open>"test"\<close> are \<^verbatim>\<open>"dGVzdA=="\<close>, as in the tables of the tests.\<close>

lemma b64encode_test: "b64encode [116, 101, 115, 116] = ''dGVzdA==''"
  by (simp add: Let_def b64_char_def b64_alphabet_def)

lemma float_json_roundtrip: "float_from_json (float_to_json f) = Some f"
  by (cases f) simp_all

lemma int_range_kinds: "int_range w = Some r \<Longrightarrow> \<not> is_float w \<and> \<not> is_complex w"
  by (cases w) simp_all

lemma is_float_kinds: "is_float w \<Longrightarrow> w \<noteq> Bool \<and> (\<forall>fs. w \<noteq> Structured fs)"
  by (cases w) simp_all

lemma roundtrip_aux:
  "scalar_of w x \<longrightarrow> (\<exists>j. to_json_value w x v = Inr j \<and> from_json_value w j v = Inr x)"
  "scalars_of fs xs \<longrightarrow> (\<exists>js. to_json_fields fs xs v = Inr js \<and> from_json_fields fs js v = Inr xs)"
proof (induction w x v and fs xs v rule: to_json_value_to_json_fields.induct)
  case (1 w x v)
  show ?case
  proof (cases x)
    case (SBool b)
    then show ?thesis
      by (simp add: scalar_of.simps to_json_value.simps from_json_value.simps)
  next
    case (SInt i)
    then show ?thesis
      by (cases w) (simp_all add: scalar_of.simps to_json_value.simps from_json_value.simps)
  next
    case (SFloat f)
    then show ?thesis
      by (cases w)
        (simp_all add: scalar_of.simps to_json_value.simps from_json_value.simps
          float_json_roundtrip)
  next
    case (SComplex re im)
    then show ?thesis
      by (cases w)
        (simp_all add: scalar_of.simps to_json_value.simps from_json_value.simps
          float_json_roundtrip)
  next
    case (SBytes bs)
    then show ?thesis
      by (cases w)
        (simp_all add: scalar_of.simps to_json_value.simps from_json_value.simps b64_roundtrip)
  next
    case (SVoid bs)
    then show ?thesis
      by (cases w)
        (simp_all add: scalar_of.simps to_json_value.simps from_json_value.simps b64_roundtrip)
  next
    case (SStr s)
    then show ?thesis
      by (cases w) (simp_all add: scalar_of.simps to_json_value.simps from_json_value.simps)
  next
    case (SDateTime t)
    then show ?thesis
      by (cases w) (simp_all add: scalar_of.simps to_json_value.simps from_json_value.simps)
  next
    case SNaT
    then show ?thesis
      by (cases w) (simp_all add: scalar_of.simps to_json_value.simps from_json_value.simps)
  next
    case (SRecord ys)
    show ?thesis
    proof (cases w)
      case (Structured gs)
      show ?thesis
      proof
        assume "scalar_of w x"
        then have "scalars_of gs ys"
          by (simp add: SRecord Structured scalar_of.simps)
        with "1" [OF SRecord Structured]
        obtain js where "to_json_fields gs ys v = Inr js" "from_json_fields gs js v = Inr ys"
          by blast
        then show "\<exists>j. to_json_value w x v = Inr j \<and> from_json_value w j v = Inr x"
          by (simp add: SRecord Structured to_json_value.simps from_json_value.simps)
      qed
    qed (simp_all add: SRecord scalar_of.simps)
  qed
next
  case (2 xs v)
  then show ?case by simp
next
  case (3 f fs xs v)
  show ?case
  proof (cases xs)
    case Nil
    then show ?thesis by simp
  next
    case (Cons y ys)
    show ?thesis
    proof
      assume "scalars_of (f # fs) xs"
      then have typed: "scalar_of (snd f) y" "scalars_of fs ys"
        by (simp_all add: Cons)
      from "3.IH"(1) [OF Cons] typed(1)
      obtain j where j: "to_json_value (snd f) y v = Inr j" "from_json_value (snd f) j v = Inr y"
        by blast
      from "3.IH"(2) [OF Cons j(1)] typed(2)
      obtain js where js: "to_json_fields fs ys v = Inr js" "from_json_fields fs js v = Inr ys"
        by blast
      from j js
      show "\<exists>js. to_json_fields (f # fs) xs v = Inr js \<and> from_json_fields (f # fs) js v = Inr xs"
        by (simp add: Cons)
    qed
  qed
qed

text \<open>Rows of the tables of the tests, for both format versions.\<close>

lemma to_json_value_examples:
  "to_json_value Bool (SBool True) v = Inr (JBool True)"
  "to_json_value Int8 (SInt 42) v = Inr (JInt 42)"
  "to_json_value UInt64 (SInt 42) v = Inr (JInt 42)"
  "to_json_value Float16 (SFloat (Fin 42)) v = Inr (JNum (Fin 42))"
  "to_json_value Complex64 (SComplex (Fin 42) (Fin 1)) v = Inr (JArray [JNum (Fin 42), JNum (Fin 1)])"
  "to_json_value (FixedLengthAscii 4) (SBytes [116, 101, 115, 116]) v = Inr (JStr ''dGVzdA=='')"
  "to_json_value (FixedLengthUnicode 4) (SStr ''test'') v = Inr (JStr ''test'')"
  "to_json_value VariableLengthString (SStr ''test'') v = Inr (JStr ''test'')"
  "to_json_value (DateTime64 ''s'') (SDateTime 1609459200) v = Inr (JInt 1609459200)"
  "to_json_value (DateTime64 ''s'') SNaT v = Inr JNull"
  by (simp_all add: to_json_value.simps Let_def b64_char_def b64_alphabet_def)

lemma from_json_value_examples:
  "from_json_value Bool (JBool True) v = Inr (SBool True)"
  "from_json_value Int8 (JInt 42) v = Inr (SInt 42)"
  "from_json_value Int8 (JInt 128) v = Inl (ValueError InvalidJsonValue)"
  "from_json_value Float64 (JNum (Fin 42)) v = Inr (SFloat (Fin 42))"
  "from_json_value Float32 (JStr ''NaN'') v = Inr (SFloat NaN)"
  "from_json_value Complex128 (JArray [JNum (Fin 42), JNum (Fin 1)]) v
     = Inr (SComplex (Fin 42) (Fin 1))"
  "from_json_value (FixedLengthUnicode 4) (JStr ''test'') v = Inr (SStr ''test'')"
  "from_json_value (DateTime64 ''s'') (JInt 1609459200) v = Inr (SDateTime 1609459200)"
  "from_json_value (DateTime64 ''s'') JNull v = Inr SNaT"
  by (simp_all add: from_json_value.simps)

text \<open>
  C1. For every supported wrapper, every scalar of its native type and each format
  version, \<^verbatim>\<open>to_json_value\<close> succeeds and \<^verbatim>\<open>from_json_value\<close> of its result is the scalar
  again; for a NaN or not-a-time scalar this is the same NaN or not-a-time.
\<close>

theorem json_value_roundtrip:
  "scalar_of w x \<Longrightarrow>
   \<exists>j. to_json_value w x v = Inr j \<and> from_json_value w j v = Inr x"
  using roundtrip_aux(1) by blast

theorem json_value_roundtrip_witness:
  "to_json_value (FixedLengthBytes 4) (SVoid [116, 101, 115, 116]) V2 = Inr (JStr ''dGVzdA=='') \<and>
   from_json_value (FixedLengthBytes 4) (JStr ''dGVzdA=='') V2 = Inr (SVoid [116, 101, 115, 116]) \<and>
   from_json_value (DateTime64 ''s'') (JInt 1609459200) V3 = Inr (SDateTime 1609459200)"
proof -
  have bytes: "scalar_of (FixedLengthBytes 4) (SVoid [116, 101, 115, 116])"
    by (simp add: scalar_of.simps)
  have enc: "to_json_value (FixedLengthBytes 4) (SVoid [116, 101, 115, 116]) V2
      = Inr (JStr ''dGVzdA=='')"
    by (simp add: to_json_value.simps Let_def b64_char_def b64_alphabet_def)
  have time: "scalar_of (DateTime64 ''s'') (SDateTime 1609459200)"
    by (simp add: scalar_of.simps)
  have enc_time: "to_json_value (DateTime64 ''s'') (SDateTime 1609459200) V3
      = Inr (JInt 1609459200)"
    by (simp add: to_json_value.simps)
  from json_value_roundtrip [OF bytes, of V2] json_value_roundtrip [OF time, of V3] enc enc_time
  show ?thesis by simp
qed

section \<open>The registry\<close>

lemma get_register: "get (register r name f) name = Inr f"
  by (simp add: get_def register_def update_conv')

lemma register_twice: "register (register r name f) name g = register r name g"
  by (simp add: register_def)

lemma match_dtype_registered:
  "\<forall>(n, h) \<in> set r. n \<noteq> name \<longrightarrow> from_dtype h d = None \<Longrightarrow> from_dtype g d = Some w \<Longrightarrow>
   match_dtype from_dtype dtype_name (register r name g) d = Inr w"
  by (induction r) (auto simp: register_def)

lemma match_dtype_none:
  "\<forall>(n, f) \<in> set r. from_dtype f d = None \<Longrightarrow>
   match_dtype from_dtype dtype_name r d = Inl (ValueError (NoMatchingWrapper (dtype_name d)))"
  by (induction r) auto

lemma match_dtype_some:
  "match_dtype from_dtype dtype_name r d = Inr w \<Longrightarrow> \<exists>(n, f) \<in> set r. from_dtype f d = Some w"
  by (induction r) (auto split: option.splits)

lemma get_absent: "name \<notin> fst ` set r \<Longrightarrow> get r name = Inl (KeyError (NotRegistered name))"
proof -
  assume "name \<notin> fst ` set r"
  then have "map_of r name = None"
    by (simp add: map_of_eq_None_iff)
  then show ?thesis by (simp add: get_def)
qed

text \<open>
  C3. After \<open>register\<close> of a factory under a name, \<open>get\<close> of the name returns the
  factory; registering a second factory under the same name raises nothing and leaves
  the registry that registering the second alone gives, so \<open>get\<close> returns the second,
  and \<open>match_dtype\<close> of a native type that the second handles, and no factory under
  another name does, returns the wrapper of the second.
\<close>

theorem register_last_write_wins:
  "get (register r name f) name = Inr f \<and>
   get (register (register r name f) name g) name = Inr g \<and>
   register (register r name f) name g = register r name g \<and>
   ((\<forall>(n, h) \<in> set r. n \<noteq> name \<longrightarrow> from_dtype h d = None) \<and> from_dtype g d = Some w \<longrightarrow>
      match_dtype from_dtype dtype_name (register (register r name f) name g) d = Inr w)"
  using match_dtype_registered [of r name from_dtype d g w dtype_name]
  by (simp add: get_register register_twice)

theorem register_last_write_wins_witness:
  "get (register [(''int8'', ''Int8'')] ''bool'' ''Bool'') ''bool'' = Inr ''Bool'' \<and>
   get (register (register [(''int8'', ''Int8'')] ''bool'' ''Bool'') ''bool'' ''NewBool'') ''bool''
     = Inr ''NewBool'' \<and>
   match_dtype example_from_dtype (\<lambda>d. d)
     (register (register [(''int8'', ''Int8'')] ''bool'' ''Bool'') ''bool'' ''NewBool'') ''bool''
     = Inr ''NewBool''"
  using register_last_write_wins
      [of "[(''int8'', ''Int8'')]" "''bool''" "''Bool''" "''NewBool''" example_from_dtype
        "''bool''" "''NewBool''" "\<lambda>d. d"]
  by (simp add: example_from_dtype_def register_def get_def)

text \<open>
  C4. When no registered factory handles a native type, \<open>match_dtype\<close> fails with the
  no-match error that names this native type; a wrapper it returns is always one that a
  registered factory built from the native type, never a default; and \<open>get\<close> of a name
  that is not registered fails with the not-found error.
\<close>

theorem match_dtype_no_match:
  "((\<forall>(n, f) \<in> set r. from_dtype f d = None) \<longrightarrow>
      match_dtype from_dtype dtype_name r d
        = Inl (ValueError (NoMatchingWrapper (dtype_name d)))) \<and>
   (match_dtype from_dtype dtype_name r d = Inr w \<longrightarrow>
      (\<exists>(n, f) \<in> set r. from_dtype f d = Some w)) \<and>
   (name \<notin> fst ` set r \<longrightarrow> get r name = Inl (KeyError (NotRegistered name)))"
  using match_dtype_none [of r from_dtype d dtype_name]
    match_dtype_some [of from_dtype dtype_name r d w] get_absent [of name r]
  by blast

theorem match_dtype_no_match_witness:
  "match_dtype example_from_dtype (\<lambda>d. d) (register [] ''bool'' ''Bool'') ''int8''
     = Inl (ValueError (NoMatchingWrapper ''int8'')) \<and>
   get (register [] ''bool'' ''Bool'') ''int8'' = Inl (KeyError (NotRegistered ''int8''))"
  using match_dtype_no_match
      [of "register [] ''bool'' ''Bool''" example_from_dtype "''int8''" "\<lambda>d. d" _ "''int8''"]
  by (simp add: example_from_dtype_def register_def)

end
